theory Spec2Isabelle
  imports Complex_Main "HOL-Library.Word"
begin

section \<open>JavaScript values\<close>

text \<open>
  The store keeps JSON documents and is driven by JavaScript values supplied by the
  caller. One datatype covers both: a number is the rational it denotes or one of the three
  non-finite doubles, an object is the list of its own enumerable properties in property
  order, an array is the list of its elements. Only an assignment beyond the end of an array
  of the file makes holes; a hole is written \<open>JUndefined\<close> there, since the array is only
  serialised after that and a hole is serialised like \<open>undefined\<close>.

  The values of this type are the data a caller can hand over and a file can hold. Functions
  and the built-in objects are not among them; a property read that ends at one of them on
  the prototype chain is modelled (\<open>lookup\<close> below), and the built-in it finds equals no
  value of this type. Also outside the model: symbols, \<open>Date\<close> and other objects whose
  \<open>toJSON\<close> is a function, cyclic values, arrays with holes handed over by the caller,
  the difference between \<open>0\<close> and \<open>-0\<close>, the
  place that a key which is an array index takes among the keys of an object, and the
  conversions between a finite number and its decimal text, which are floating-point
  algorithms.
\<close>

datatype jsnum = Fin rat | NaN | PosInf | NegInf

datatype jsval =
    JUndefined
  | JNull
  | JBool bool
  | JNum jsnum
  | JStr string
  | JArr "jsval list"
  | JObj "(string \<times> jsval) list"

text \<open>
  The exceptions of the program. \<open>ReferenceError\<close> is what \<open>throw CollectionError\<close>
  raises: \<open>index.js\<close> never declares the identifier \<open>CollectionError\<close>, so evaluating it
  throws. \<open>SyntaxError\<close> is raised by \<open>JSON.parse\<close>, \<open>RangeError\<close> by an assignment of
  an invalid length to an array. \<open>NotModelled\<close> is not an exception of the program: it marks
  the two places where the result depends on the decimal text of a finite number (the file
  path of a collection named by a finite number, which the name check never lets through,
  and the assignment of a string or an array to the \<open>length\<close> of an array).
\<close>

datatype error = ReferenceError | TypeError | SyntaxError | RangeError | NotModelled

datatype jstype = TUndefined | TObject | TBoolean | TNumber | TString

fun typeof :: "jsval \<Rightarrow> jstype" where
  "typeof JUndefined = TUndefined"
| "typeof JNull = TObject"
| "typeof (JBool b) = TBoolean"
| "typeof (JNum n) = TNumber"
| "typeof (JStr s) = TString"
| "typeof (JArr xs) = TObject"
| "typeof (JObj kvs) = TObject"

fun isArray :: "jsval \<Rightarrow> bool" where
  "isArray (JArr xs) = True"
| "isArray v = False"

text \<open>\<open>!v\<close> is true exactly for the falsy values.\<close>

fun falsy :: "jsval \<Rightarrow> bool" where
  "falsy JUndefined = True"
| "falsy JNull = True"
| "falsy (JBool b) = (\<not> b)"
| "falsy (JNum n) = (n = Fin 0 \<or> n = NaN)"
| "falsy (JStr s) = (s = [])"
| "falsy (JArr xs) = False"
| "falsy (JObj kvs) = False"

text \<open>
  \<open>Number.prototype.toString\<close> for a natural number, radix 10 and radix 16; the digits
  above nine are the lower-case letters.
\<close>

definition digit :: "nat \<Rightarrow> char" where
  "digit d = ''0123456789abcdef'' ! d"

function toString10 :: "nat \<Rightarrow> string" where
  "toString10 n =
     (if n < 10 then [digit n]
      else toString10 (n div 10) @ [digit (n mod 10)])"
  by pat_completeness auto
termination
  by (relation "measure id") auto

function toString16 :: "nat \<Rightarrow> string" where
  "toString16 n =
     (if n < 16 then [digit n]
      else toString16 (n div 16) @ [digit (n mod 16)])"
  by pat_completeness auto
termination
  by (relation "measure id") auto

declare toString10.simps [simp del] toString16.simps [simp del]

text \<open>\<open>s.padStart(n, c)\<close> for a one-character filler \<open>c\<close>.\<close>

definition padStart :: "string \<Rightarrow> nat \<Rightarrow> char \<Rightarrow> string" where
  "padStart s n c = replicate (n - length s) c @ s"

subsection \<open>Conversion to a string\<close>

text \<open>
  The result of \<open>ToString\<close>. The decimal text of a finite number is not spelt out; all
  this program asks of it is whether it consists of letters, and it has a digit in it.
  \<open>HasDigit\<close> is such a text, or a text with one inside.
\<close>

datatype jstext = Text string | HasDigit

text \<open>\<open>Array.prototype.join\<close> with the separator \<open>,\<close>, on the converted elements.\<close>

fun join :: "(error + jstext) list \<Rightarrow> error + jstext" where
  "join [] = Inr (Text [])"
| "join [p] = p"
| "join (p # q # ps) =
     (case p of
        Inl e \<Rightarrow> Inl e
      | Inr t \<Rightarrow>
          (case join (q # ps) of
             Inl e \<Rightarrow> Inl e
           | Inr ts \<Rightarrow>
               Inr (case (t, ts) of
                      (Text a, Text b) \<Rightarrow> Text (a @ '','' @ b)
                    | _ \<Rightarrow> HasDigit)))"

text \<open>
  \<open>ToString(v)\<close>, the conversion that \<open>RegExp.prototype.test\<close> and a template literal
  apply. An array is joined, with \<open>undefined\<close> and \<open>null\<close> elements as empty strings. A
  plain object reaches \<open>Object.prototype.toString\<close> unless it has an own property
  \<open>toString\<close>; that one is no function, and the conversion throws.
\<close>

fun ToString :: "jsval \<Rightarrow> error + jstext" where
  "ToString JUndefined = Inr (Text ''undefined'')"
| "ToString JNull = Inr (Text ''null'')"
| "ToString (JBool b) = Inr (Text (if b then ''true'' else ''false''))"
| "ToString (JNum n) =
     Inr (case n of
            Fin q \<Rightarrow> HasDigit
          | NaN \<Rightarrow> Text ''NaN''
          | PosInf \<Rightarrow> Text ''Infinity''
          | NegInf \<Rightarrow> Text ''-Infinity'')"
| "ToString (JStr s) = Inr (Text s)"
| "ToString (JArr xs) =
     join (map (\<lambda>x. if x = JUndefined \<or> x = JNull then Inr (Text []) else ToString x) xs)"
| "ToString (JObj kvs) =
     (if ''toString'' \<in> set (map fst kvs) then Inl TypeError
      else Inr (Text ''[object Object]''))"

subsection \<open>Property access\<close>

text \<open>
  The array index that a property key names: the key is the canonical decimal numeral of a
  number below \<open>2^32 - 1\<close>.
\<close>

definition numeral_value :: "string \<Rightarrow> int" where
  "numeral_value key = foldl (\<lambda>n c. 10 * n + (of_char c - 48)) 0 key"

definition index_of_key :: "string \<Rightarrow> nat option" where
  "index_of_key key =
     (if key \<noteq> [] \<and> list_all (\<lambda>c. c \<in> set ''0123456789'') key
         \<and> numeral_value key < 4294967295
         \<and> toString10 (nat (numeral_value key)) = key
      then Some (nat (numeral_value key)) else None)"

text \<open>\<open>array_index n key\<close> is the index below \<open>n\<close> that \<open>key\<close> names, if any.\<close>

definition array_index :: "nat \<Rightarrow> string \<Rightarrow> nat option" where
  "array_index n key =
     (case index_of_key key of
        Some i \<Rightarrow> if i < n then Some i else None
      | None \<Rightarrow> None)"

text \<open>
  The names of the string-keyed properties of the built-in prototypes, after ECMAScript 2025
  and its Annex B. Every object inherits those of \<open>Object.prototype\<close>.
\<close>

definition objectPrototype :: "string list" where
  "objectPrototype =
     [''constructor'', ''__defineGetter__'', ''__defineSetter__'', ''hasOwnProperty'',
      ''__lookupGetter__'', ''__lookupSetter__'', ''isPrototypeOf'',
      ''propertyIsEnumerable'', ''toString'', ''valueOf'', ''__proto__'',
      ''toLocaleString'']"

definition arrayPrototype :: "string list" where
  "arrayPrototype =
     [''length'', ''constructor'', ''at'', ''concat'', ''copyWithin'', ''fill'', ''find'',
      ''findIndex'', ''findLast'', ''findLastIndex'', ''lastIndexOf'', ''pop'', ''push'',
      ''reverse'', ''shift'', ''unshift'', ''slice'', ''sort'', ''splice'', ''includes'',
      ''indexOf'', ''join'', ''keys'', ''entries'', ''values'', ''forEach'', ''filter'',
      ''flat'', ''flatMap'', ''map'', ''every'', ''some'', ''reduce'', ''reduceRight'',
      ''toLocaleString'', ''toString'', ''toReversed'', ''toSorted'', ''toSpliced'',
      ''with'']"

definition stringPrototype :: "string list" where
  "stringPrototype =
     [''length'', ''constructor'', ''anchor'', ''at'', ''big'', ''blink'', ''bold'',
      ''charAt'', ''charCodeAt'', ''codePointAt'', ''concat'', ''endsWith'', ''fontcolor'',
      ''fontsize'', ''fixed'', ''includes'', ''indexOf'', ''isWellFormed'', ''italics'',
      ''lastIndexOf'', ''link'', ''localeCompare'', ''match'', ''matchAll'', ''normalize'',
      ''padEnd'', ''padStart'', ''repeat'', ''replace'', ''replaceAll'', ''search'',
      ''slice'', ''small'', ''split'', ''strike'', ''sub'', ''substr'', ''substring'',
      ''sup'', ''startsWith'', ''toString'', ''toWellFormed'', ''trim'', ''trimStart'',
      ''trimLeft'', ''trimEnd'', ''trimRight'', ''toLocaleLowerCase'',
      ''toLocaleUpperCase'', ''toLowerCase'', ''toUpperCase'', ''valueOf'']"

definition numberPrototype :: "string list" where
  "numberPrototype =
     [''constructor'', ''toExponential'', ''toFixed'', ''toPrecision'', ''toString'',
      ''valueOf'', ''toLocaleString'']"

definition booleanPrototype :: "string list" where
  "booleanPrototype = [''constructor'', ''toString'', ''valueOf'']"

text \<open>
  What a property read finds: a value of the caller's or the file's data, or a built-in
  function or prototype object on the prototype chain.
\<close>

datatype lookup = Value jsval | Builtin

text \<open>The end of a read that found no own property, on the chain of the given prototypes.\<close>

definition inherited :: "string list \<Rightarrow> string \<Rightarrow> lookup" where
  "inherited chain key = (if key \<in> set chain then Builtin else Value JUndefined)"

text \<open>
  \<open>obj[key]\<close>. Reading a property of \<open>undefined\<close> or \<open>null\<close> throws. A boolean, a number
  or a string is wrapped first. An own property is read; without one the read goes up the
  prototype chain and ends at a built-in or, when no prototype has the key, at
  \<open>undefined\<close>. Every object here is as \<open>JSON.parse\<close> or the caller made it: its prototype
  is the one it was created with.
\<close>

fun getProp :: "jsval \<Rightarrow> string \<Rightarrow> error + lookup" where
  "getProp JUndefined key = Inl TypeError"
| "getProp JNull key = Inl TypeError"
| "getProp (JBool b) key = Inr (inherited (booleanPrototype @ objectPrototype) key)"
| "getProp (JNum n) key = Inr (inherited (numberPrototype @ objectPrototype) key)"
| "getProp (JStr s) key =
     Inr (case array_index (length s) key of
            Some i \<Rightarrow> Value (JStr [s ! i])
          | None \<Rightarrow>
              if key = ''length'' then Value (JNum (Fin (of_nat (length s))))
              else inherited (stringPrototype @ objectPrototype) key)"
| "getProp (JArr xs) key =
     Inr (case array_index (length xs) key of
            Some i \<Rightarrow> Value (xs ! i)
          | None \<Rightarrow>
              if key = ''length'' then Value (JNum (Fin (of_nat (length xs))))
              else inherited (arrayPrototype @ objectPrototype) key)"
| "getProp (JObj kvs) key =
     Inr (case map_of kvs key of
            Some v \<Rightarrow> Value v
          | None \<Rightarrow> inherited objectPrototype key)"

text \<open>\<open>Object.keys(v)\<close>: the own enumerable string keys.\<close>

fun Object_keys :: "jsval \<Rightarrow> error + string list" where
  "Object_keys JUndefined = Inl TypeError"
| "Object_keys JNull = Inl TypeError"
| "Object_keys (JBool b) = Inr []"
| "Object_keys (JNum n) = Inr []"
| "Object_keys (JStr s) = Inr (map toString10 [0..<length s])"
| "Object_keys (JArr xs) = Inr (map toString10 [0..<length xs])"
| "Object_keys (JObj kvs) = Inr (map fst kvs)"

text \<open>
  The own enumerable properties of a value, key and value, in the order of \<open>Object.keys\<close>:
  what \<open>Object.assign\<close> copies from a source, and what \<open>v[key]\<close> reads for a key of
  \<open>Object.keys(v)\<close>.
\<close>

fun own_entries :: "jsval \<Rightarrow> (string \<times> jsval) list" where
  "own_entries (JObj kvs) = kvs"
| "own_entries (JArr xs) = zip (map toString10 [0..<length xs]) xs"
| "own_entries (JStr s) = zip (map toString10 [0..<length s]) (map (\<lambda>c. JStr [c]) s)"
| "own_entries v = []"

text \<open>
  \<open>obj[key] = value\<close> creating or overwriting an own property of a plain object: an
  existing property keeps its place, a new one goes last.
\<close>

fun setProp :: "(string \<times> jsval) list \<Rightarrow> string \<Rightarrow> jsval \<Rightarrow> (string \<times> jsval) list" where
  "setProp [] key v = [(key, v)]"
| "setProp ((k, old) # kvs) key v =
     (if k = key then (k, v) # kvs else (k, old) # setProp kvs key v)"

text \<open>
  The statement \<open>obj[key] = value\<close> on an object. An own property is
  overwritten. Without one the prototype chain decides: \<open>__proto__\<close> is an accessor of
  \<open>Object.prototype\<close>, its setter changes the prototype of the object and adds no property;
  every other inherited property is writable data, and the assignment creates an own
  property, as it does for a key that no prototype has. The changed prototype is never
  looked at again: the object is only serialised after that, and serialisation reads own
  properties.
\<close>

definition assignObj :: "(string \<times> jsval) list \<Rightarrow> string \<Rightarrow> jsval \<Rightarrow> (string \<times> jsval) list" where
  "assignObj kvs key v =
     (if key = ''__proto__'' \<and> map_of kvs key = None then kvs else setProp kvs key v)"

text \<open>
  \<open>index.js\<close> makes the assignment \<open>document._id = ...\<close> on plain objects only
  (\<open>validateDoc\<close>, behind its guard); it is not in strict mode, so the assignment would do
  nothing to a boolean, a number or a string.
\<close>

fun putProp :: "jsval \<Rightarrow> string \<Rightarrow> jsval \<Rightarrow> jsval" where
  "putProp (JObj kvs) key v = JObj (assignObj kvs key v)"
| "putProp other key v = other"

text \<open>
  The length that \<open>arr.length = v\<close> sets: \<open>ToUint32(v)\<close>, which must equal \<open>ToNumber(v)\<close>.
  A plain object converts to \<open>NaN\<close> through \<open>Object.prototype.toString\<close>, or throws when
  it has an own \<open>toString\<close>. The number of a string, and of an array through its joined
  text, is not modelled.
\<close>

fun array_length_of :: "jsval \<Rightarrow> error + nat" where
  "array_length_of JUndefined = Inl RangeError"
| "array_length_of JNull = Inr 0"
| "array_length_of (JBool b) = Inr (if b then 1 else 0)"
| "array_length_of (JNum n) =
     (case n of
        Fin q \<Rightarrow>
          if of_int \<lfloor>q\<rfloor> = q \<and> 0 \<le> q \<and> q \<le> 4294967295 then Inr (nat \<lfloor>q\<rfloor>)
          else Inl RangeError
      | _ \<Rightarrow> Inl RangeError)"
| "array_length_of (JStr s) = Inl NotModelled"
| "array_length_of (JArr xs) = Inl NotModelled"
| "array_length_of (JObj kvs) =
     (if ''toString'' \<in> set (map fst kvs) then Inl TypeError else Inl RangeError)"

text \<open>
  The assignment \<open>arr[key] = v\<close> on an array, as far as its elements go. An index inside
  the array overwrites an element, an index beyond it makes the array longer and leaves
  holes, \<open>length\<close> cuts or extends the array. Any other key adds a property that is not
  an element (or, for \<open>__proto__\<close>, none): it is not serialised and nothing reads it.
\<close>

definition assignArr :: "jsval list \<Rightarrow> string \<Rightarrow> jsval \<Rightarrow> error + jsval list" where
  "assignArr xs key v =
     (case index_of_key key of
        Some i \<Rightarrow>
          Inr (if i < length xs then xs[i := v]
               else xs @ replicate (i - length xs) JUndefined @ [v])
      | None \<Rightarrow>
          if key = ''length'' then
            (case array_length_of v of
               Inl e \<Rightarrow> Inl e
             | Inr n \<Rightarrow> Inr (take n xs @ replicate (n - length xs) JUndefined))
          else Inr xs)"

fun assignArr_all :: "jsval list \<Rightarrow> (string \<times> jsval) list \<Rightarrow> error + jsval list" where
  "assignArr_all xs [] = Inr xs"
| "assignArr_all xs (kv # kvs) =
     (case assignArr xs (fst kv) (snd kv) of
        Inl e \<Rightarrow> Inl e
      | Inr xs' \<Rightarrow> assignArr_all xs' kvs)"

text \<open>
  \<open>Object.assign(target, source)\<close>, as far as the caller's array of documents can observe it:
  every own enumerable property of the source is assigned to the target, in order. A
  \<open>null\<close> or \<open>undefined\<close> target throws. A boolean or number target is wrapped, the wrapper
  takes the properties and is dropped, so the element stays as it is. A string target is
  wrapped too, but its indices and its \<open>length\<close> are read-only and writing one throws.
\<close>

fun Object_assign :: "jsval \<Rightarrow> jsval \<Rightarrow> error + jsval" where
  "Object_assign JUndefined source = Inl TypeError"
| "Object_assign JNull source = Inl TypeError"
| "Object_assign (JBool b) source = Inr (JBool b)"
| "Object_assign (JNum n) source = Inr (JNum n)"
| "Object_assign (JStr s) source =
     (if list_ex (\<lambda>kv. array_index (length s) (fst kv) \<noteq> None \<or> fst kv = ''length'')
           (own_entries source)
      then Inl TypeError else Inr (JStr s))"
| "Object_assign (JArr xs) source =
     (case assignArr_all xs (own_entries source) of
        Inl e \<Rightarrow> Inl e
      | Inr xs' \<Rightarrow> Inr (JArr xs'))"
| "Object_assign (JObj kvs) source =
     Inr (JObj (fold (\<lambda>kv acc. assignObj acc (fst kv) (snd kv)) (own_entries source) kvs))"

subsection \<open>Equality\<close>

text \<open>
  Objects and arrays are compared by reference. Every comparison this program makes has a
  value read from a document on one side and a value of the caller's filter on the other,
  and the documents are parsed afresh from the collection file by each operation, so no
  object or array of a document is one of the filter. A comparison with an object or an array
  on either side is therefore false, and so is the comparison of a built-in with a value of
  the filter.
\<close>

fun is_reference :: "jsval \<Rightarrow> bool" where
  "is_reference (JArr xs) = True"
| "is_reference (JObj kvs) = True"
| "is_reference v = False"

text \<open>\<open>a === b\<close>: \<open>NaN\<close> is not equal to itself.\<close>

fun strict_eq :: "lookup \<Rightarrow> jsval \<Rightarrow> bool" where
  "strict_eq Builtin b = False"
| "strict_eq (Value a) b =
     (if is_reference a \<or> is_reference b then False
      else if a = JNum NaN then False
      else a = b)"

text \<open>SameValueZero, the comparison of \<open>Array.prototype.includes\<close>: \<open>NaN\<close> equals itself.\<close>

fun same_value_zero :: "jsval \<Rightarrow> lookup \<Rightarrow> bool" where
  "same_value_zero a Builtin = False"
| "same_value_zero a (Value b) = (if is_reference a \<or> is_reference b then False else a = b)"

definition array_includes :: "jsval list \<Rightarrow> lookup \<Rightarrow> bool" where
  "array_includes xs x = list_ex (\<lambda>y. same_value_zero y x) xs"

section \<open>workflow-data: matches, filter, update, erase\<close>

text \<open>
  The module that \<open>require("workflow-data")\<close> loads is
  \<open>node_modules/workflow-data/index.js\<close>; its functions are modelled here. The repository
  also holds an older copy of the module whose \<open>filter\<close>, \<open>update\<close> and \<open>erase\<close> test
  each object with the same expression written inline and have no guards on their
  arguments; its \<open>filter\<close> is modelled as \<open>filter_v1\<close> below.
\<close>

text \<open>
  \<open>matches(obj, criteria)\<close> is \<open>Object.keys(criteria).every(...)\<close>: the keys are tried in
  order, the first failing key ends the scan, and a property read that throws ends it with the
  exception. For a key of \<open>Object.keys(criteria)\<close> the read \<open>criteria[key]\<close> gives the own
  value, so the scan runs over the own entries of \<open>criteria\<close>.
\<close>

fun every_entry :: "jsval \<Rightarrow> (string \<times> jsval) list \<Rightarrow> error + bool" where
  "every_entry obj [] = Inr True"
| "every_entry obj (entry # entries) =
     (case getProp obj (fst entry) of
        Inl e \<Rightarrow> Inl e
      | Inr x \<Rightarrow>
          if (case snd entry of
                JArr vs \<Rightarrow> array_includes vs x
              | _ \<Rightarrow> strict_eq x (snd entry))
          then every_entry obj entries
          else Inr False)"

definition matches :: "jsval \<Rightarrow> jsval \<Rightarrow> error + bool" where
  "matches obj criteria =
     (case Object_keys criteria of
        Inl e \<Rightarrow> Inl e
      | Inr keys \<Rightarrow> every_entry obj (own_entries criteria))"

text \<open>The guard shared by \<open>filter\<close>, \<open>update\<close> and \<open>erase\<close> for their object arguments.\<close>

definition non_null_object :: "jsval \<Rightarrow> bool" where
  "non_null_object v = (\<not> (typeof v \<noteq> TObject \<or> v = JNull))"

fun filter_loop :: "jsval list \<Rightarrow> jsval \<Rightarrow> error + jsval list" where
  "filter_loop [] criteria = Inr []"
| "filter_loop (obj # rest) criteria =
     (case matches obj criteria of
        Inl e \<Rightarrow> Inl e
      | Inr b \<Rightarrow>
          (case filter_loop rest criteria of
             Inl e \<Rightarrow> Inl e
           | Inr kept \<Rightarrow> Inr (if b then obj # kept else kept)))"

definition filter_data :: "jsval \<Rightarrow> jsval \<Rightarrow> error + jsval list" where
  "filter_data data filterCriteria =
     (case data of
        JArr objs \<Rightarrow>
          if \<not> non_null_object filterCriteria then Inl TypeError
          else filter_loop objs filterCriteria
      | _ \<Rightarrow> Inl TypeError)"

text \<open>
  The older \<open>filter\<close>: \<open>data.filter(...)\<close> with the test of \<open>matches\<close> inline and no
  guard; a value parsed from JSON has a \<open>filter\<close> method only when it is an array.
\<close>

definition filter_v1 :: "jsval \<Rightarrow> jsval \<Rightarrow> error + jsval list" where
  "filter_v1 data filterSpec =
     (case data of
        JArr objs \<Rightarrow> filter_loop objs filterSpec
      | _ \<Rightarrow> Inl TypeError)"

text \<open>
  \<open>update\<close> changes the objects of \<open>data\<close> in place; the model returns the array after the
  loop. When the loop throws, the caller never looks at the array again.
\<close>

fun update_loop :: "jsval list \<Rightarrow> jsval \<Rightarrow> jsval \<Rightarrow> error + jsval list" where
  "update_loop [] criteria updates = Inr []"
| "update_loop (obj # rest) criteria updates =
     (case matches obj criteria of
        Inl e \<Rightarrow> Inl e
      | Inr b \<Rightarrow>
          (case (if b then Object_assign obj updates else Inr obj) of
             Inl e \<Rightarrow> Inl e
           | Inr obj' \<Rightarrow>
               (case update_loop rest criteria updates of
                  Inl e \<Rightarrow> Inl e
                | Inr rest' \<Rightarrow> Inr (obj' # rest'))))"

definition update :: "jsval \<Rightarrow> jsval \<Rightarrow> jsval \<Rightarrow> error + jsval" where
  "update data filterCriteria updates =
     (case data of
        JArr objs \<Rightarrow>
          if \<not> non_null_object filterCriteria then Inl TypeError
          else if \<not> non_null_object updates then Inl TypeError
          else (case update_loop objs filterCriteria updates of
                  Inl e \<Rightarrow> Inl e
                | Inr objs' \<Rightarrow> Inr (JArr objs'))
      | _ \<Rightarrow> Inl TypeError)"

text \<open>\<open>data.splice(i, 1)\<close> for an index inside the array.\<close>

definition splice1 :: "'a list \<Rightarrow> nat \<Rightarrow> 'a list" where
  "splice1 xs i = take i xs @ drop (Suc i) xs"

text \<open>
  The loop of \<open>erase\<close> runs \<open>i\<close> from \<open>data.length - 1\<close> down to \<open>0\<close>;
  \<open>erase_loop data n\<close> is the loop with \<open>n\<close> indices left, the next one being \<open>n - 1\<close>.
\<close>

fun erase_loop :: "jsval list \<Rightarrow> nat \<Rightarrow> jsval \<Rightarrow> error + jsval list" where
  "erase_loop data 0 criteria = Inr data"
| "erase_loop data (Suc i) criteria =
     (case (if i < length data then matches (data ! i) criteria
            else matches JUndefined criteria) of
        Inl e \<Rightarrow> Inl e
      | Inr b \<Rightarrow> erase_loop (if b then splice1 data i else data) i criteria)"

definition erase :: "jsval \<Rightarrow> jsval \<Rightarrow> error + jsval" where
  "erase data filterCriteria =
     (case data of
        JArr objs \<Rightarrow>
          if \<not> non_null_object filterCriteria then Inl TypeError
          else (case erase_loop objs (length objs) filterCriteria of
                  Inl e \<Rightarrow> Inl e
                | Inr objs' \<Rightarrow> Inr (JArr objs'))
      | _ \<Rightarrow> Inl TypeError)"

section \<open>The file system, JSON text and the random source\<close>

text \<open>
  A file's text is modelled by what \<open>JSON.parse\<close> makes of it: the value it denotes, or a
  syntax error. \<open>JSON.stringify\<close> and \<open>JSON.parse\<close> are the platform's; the model takes
  from ECMAScript that parsing the text \<open>JSON.stringify\<close> wrote gives back the serialised
  value, and does not model the characters of the text.
\<close>

datatype file_text = Json jsval | Malformed

datatype fs_call = ExistsSync string | ReadFileSync string | WriteFileSync string

text \<open>
  The world an operation runs in: the files by path, the calls made to the file system so
  far, and the bytes the cryptographic random source will deliver next.
\<close>

record world =
  files :: "string \<rightharpoonup> file_text"
  trace :: "fs_call list"
  entropy :: "nat \<Rightarrow> 8 word"

text \<open>
  \<open>serialize v\<close> is the JSON value that the text \<open>JSON.stringify(v, null, 2)\<close> denotes, for
  \<open>v\<close> at the top or inside an array: \<open>undefined\<close> and the non-finite numbers become
  \<open>null\<close>, and a property whose value is \<open>undefined\<close> is left out.
\<close>

fun serialize :: "jsval \<Rightarrow> jsval" where
  "serialize JUndefined = JNull"
| "serialize JNull = JNull"
| "serialize (JBool b) = JBool b"
| "serialize (JNum n) = (case n of Fin q \<Rightarrow> JNum n | _ \<Rightarrow> JNull)"
| "serialize (JStr s) = JStr s"
| "serialize (JArr xs) = JArr (map serialize xs)"
| "serialize (JObj kvs) =
     JObj (map (\<lambda>kv. (fst kv, serialize (snd kv)))
             (filter (\<lambda>kv. snd kv \<noteq> JUndefined) kvs))"

text \<open>\<open>JSON.stringify(undefined)\<close> is \<open>undefined\<close>, not a text.\<close>

definition JSON_stringify :: "jsval \<Rightarrow> file_text option" where
  "JSON_stringify v = (if v = JUndefined then None else Some (Json (serialize v)))"

definition JSON_parse :: "file_text \<Rightarrow> error + jsval" where
  "JSON_parse t = (case t of Json v \<Rightarrow> Inr v | Malformed \<Rightarrow> Inl SyntaxError)"

text \<open>
  The values \<open>JSON.parse\<close> returns: no \<open>undefined\<close>, no non-finite number, and objects whose
  keys are distinct.
\<close>

fun is_json :: "jsval \<Rightarrow> bool" where
  "is_json JUndefined = False"
| "is_json JNull = True"
| "is_json (JBool b) = True"
| "is_json (JNum n) = (case n of Fin q \<Rightarrow> True | _ \<Rightarrow> False)"
| "is_json (JStr s) = True"
| "is_json (JArr xs) = list_all is_json xs"
| "is_json (JObj kvs) = (distinct (map fst kvs) \<and> list_all (\<lambda>kv. is_json (snd kv)) kvs)"

text \<open>\<open>crypto.getRandomValues(new Uint8Array(n))\<close>: the next \<open>n\<close> bytes of the source.\<close>

definition getRandomValues :: "nat \<Rightarrow> world \<Rightarrow> 8 word list \<times> world" where
  "getRandomValues n w =
     (map (entropy w) [0..<n], w\<lparr>entropy := (\<lambda>i. entropy w (i + n))\<rparr>)"

section \<open>index.js\<close>

definition randomHex :: "nat \<Rightarrow> world \<Rightarrow> string \<times> world" where
  "randomHex bytes w =
     (case getRandomValues bytes w of
        (buffer, w') \<Rightarrow>
          (concat (map (\<lambda>byte. padStart (toString16 (unat byte)) 2 (CHR ''0'')) buffer), w'))"

text \<open>
  \<open>/^[A-Za-z]+$/.test(str)\<close>: \<open>test\<close> converts its argument with \<open>ToString\<close>, which can
  throw, and matches the text; without the \<open>m\<close> flag \<open>$\<close> matches at the end of input
  only.
\<close>

definition is_alpha :: "char \<Rightarrow> bool" where
  "is_alpha c =
     ((of_char (CHR ''A'') \<le> (of_char c :: nat) \<and> (of_char c :: nat) \<le> of_char (CHR ''Z''))
      \<or> (of_char (CHR ''a'') \<le> (of_char c :: nat) \<and> (of_char c :: nat) \<le> of_char (CHR ''z'')))"

definition alphabetical :: "jstext \<Rightarrow> bool" where
  "alphabetical t = (case t of Text s \<Rightarrow> s \<noteq> [] \<and> list_all is_alpha s | HasDigit \<Rightarrow> False)"

definition validateAlphabetical :: "jsval \<Rightarrow> error + bool" where
  "validateAlphabetical str =
     (case ToString str of Inl e \<Rightarrow> Inl e | Inr t \<Rightarrow> Inr (alphabetical t))"

text \<open>
  \<open>writeFile\<close> and \<open>readFile\<close>. The directory check of \<open>writeFile\<close> and its \<open>console.log\<close>
  are left out: the root directory exists since the constructor made it.
  \<open>fs.writeFileSync\<close> rejects data that is not a string with a \<open>TypeError\<close>.
\<close>

definition writeFile :: "string \<Rightarrow> jsval \<Rightarrow> world \<Rightarrow> (error + unit) \<times> world" where
  "writeFile filepath data w =
     (case JSON_stringify data of
        None \<Rightarrow> (Inl TypeError, w)
      | Some jsonData \<Rightarrow>
          (Inr (), w\<lparr>files := (files w)(filepath \<mapsto> jsonData),
                     trace := trace w @ [WriteFileSync filepath]\<rparr>))"

definition readFile :: "string \<Rightarrow> world \<Rightarrow> jsval \<times> world" where
  "readFile filepath w =
     (case files w filepath of
        None \<Rightarrow> (JArr [], w\<lparr>trace := trace w @ [ExistsSync filepath]\<rparr>)
      | Some jsonData \<Rightarrow>
          (case JSON_parse jsonData of
             Inl e \<Rightarrow> JArr []
           | Inr v \<Rightarrow> v,
           w\<lparr>trace := trace w @ [ExistsSync filepath, ReadFileSync filepath]\<rparr>))"

text \<open>The test that \<open>validateDoc\<close> and \<open>insertOne\<close> both make of a document.\<close>

definition non_object_value :: "jsval \<Rightarrow> bool" where
  "non_object_value document =
     (typeof document \<noteq> TObject \<or> document = JNull \<or> isArray document)"

text \<open>\<open>!x\<close> for what a property read found; a built-in is an object, so it is truthy.\<close>

fun falsy_lookup :: "lookup \<Rightarrow> bool" where
  "falsy_lookup (Value v) = falsy v"
| "falsy_lookup Builtin = False"

definition validateDoc :: "jsval \<Rightarrow> world \<Rightarrow> (error + jsval) \<times> world" where
  "validateDoc document w =
     (if non_object_value document then (Inl TypeError, w)
      else
        (case getProp document ''_id'' of
           Inl e \<Rightarrow> (Inl e, w)
         | Inr x \<Rightarrow>
             if falsy_lookup x then
               (case randomHex 8 w of
                  (hex, w') \<Rightarrow> (Inr (putProp document ''_id'' (JStr hex)), w'))
             else (Inr document, w)))"

record database =
  directory :: string

text \<open>
  The template literal \<open>`${this.directory}/${collection}.json`\<close> converts the collection
  with \<open>ToString\<close> once more. Every method evaluates it after the name check, which a
  finite number does not pass.
\<close>

definition filepath_of :: "database \<Rightarrow> jsval \<Rightarrow> error + string" where
  "filepath_of db collection =
     (case ToString collection of
        Inl e \<Rightarrow> Inl e
      | Inr (Text name) \<Rightarrow> Inr (directory db @ ''/'' @ name @ ''.json'')
      | Inr HasDigit \<Rightarrow> Inl NotModelled)"

text \<open>\<open>data.push(document)\<close>: a value parsed from JSON has a \<open>push\<close> only when it is an array.\<close>

definition push :: "jsval \<Rightarrow> jsval \<Rightarrow> error + jsval" where
  "push data document =
     (case data of JArr objs \<Rightarrow> Inr (JArr (objs @ [document])) | _ \<Rightarrow> Inl TypeError)"

text \<open>
  The first statement of every method, \<open>if (!validateAlphabetical(collection)) throw
  CollectionError\<close>: the exception it ends with, if any.
\<close>

definition name_check :: "jsval \<Rightarrow> error option" where
  "name_check collection =
     (case validateAlphabetical collection of
        Inl e \<Rightarrow> Some e
      | Inr ok \<Rightarrow> if \<not> ok then Some ReferenceError else None)"

definition insertOne :: "database \<Rightarrow> jsval \<Rightarrow> jsval \<Rightarrow> world \<Rightarrow> (error + unit) \<times> world" where
  "insertOne db collection document w =
     (case name_check collection of
        Some e \<Rightarrow> (Inl e, w)
      | None \<Rightarrow>
          if non_object_value document then (Inl TypeError, w)
          else
            (case validateDoc document w of
               (Inl e, w1) \<Rightarrow> (Inl e, w1)
             | (Inr document', w1) \<Rightarrow>
                 (case filepath_of db collection of
                    Inl e \<Rightarrow> (Inl e, w1)
                  | Inr filepath \<Rightarrow>
                      (case readFile filepath w1 of
                         (data, w2) \<Rightarrow>
                           (case push data document' of
                              Inl e \<Rightarrow> (Inl e, w2)
                            | Inr data' \<Rightarrow> writeFile filepath data' w2)))))"

fun insertMany_loop :: "jsval list \<Rightarrow> jsval \<Rightarrow> world \<Rightarrow> (error + jsval) \<times> world" where
  "insertMany_loop [] data w = (Inr data, w)"
| "insertMany_loop (document # docs) data w =
     (case validateDoc document w of
        (Inl e, w1) \<Rightarrow> (Inl e, w1)
      | (Inr document', w1) \<Rightarrow>
          (case push data document' of
             Inl e \<Rightarrow> (Inl e, w1)
           | Inr data' \<Rightarrow> insertMany_loop docs data' w1))"

definition insertMany :: "database \<Rightarrow> jsval \<Rightarrow> jsval \<Rightarrow> world \<Rightarrow> (error + unit) \<times> world" where
  "insertMany db collection docs w =
     (case name_check collection of
        Some e \<Rightarrow> (Inl e, w)
      | None \<Rightarrow>
          (case docs of
             JArr ds \<Rightarrow>
               if \<not> list_all (\<lambda>document. typeof document = TObject \<and> document \<noteq> JNull) ds
               then (Inl TypeError, w)
               else
                 (case filepath_of db collection of
                    Inl e \<Rightarrow> (Inl e, w)
                  | Inr filepath \<Rightarrow>
                      (case readFile filepath w of
                         (data, w1) \<Rightarrow>
                           (case insertMany_loop ds data w1 of
                              (Inl e, w2) \<Rightarrow> (Inl e, w2)
                            | (Inr data', w2) \<Rightarrow> writeFile filepath data' w2)))
           | _ \<Rightarrow> (Inl TypeError, w)))"

text \<open>\<open>xs[0]\<close>: \<open>undefined\<close> for the empty array.\<close>

definition first :: "jsval list \<Rightarrow> jsval" where
  "first xs = (case xs of [] \<Rightarrow> JUndefined | x # rest \<Rightarrow> x)"

definition findMany :: "database \<Rightarrow> jsval \<Rightarrow> jsval \<Rightarrow> world \<Rightarrow> (error + jsval list) \<times> world" where
  "findMany db collection filterSpec w =
     (case name_check collection of
        Some e \<Rightarrow> (Inl e, w)
      | None \<Rightarrow>
          (case filepath_of db collection of
             Inl e \<Rightarrow> (Inl e, w)
           | Inr filepath \<Rightarrow>
               (case readFile filepath w of
                  (data, w1) \<Rightarrow> (filter_data data filterSpec, w1))))"

definition findOne :: "database \<Rightarrow> jsval \<Rightarrow> jsval \<Rightarrow> world \<Rightarrow> (error + jsval) \<times> world" where
  "findOne db collection filterSpec w =
     (case name_check collection of
        Some e \<Rightarrow> (Inl e, w)
      | None \<Rightarrow>
          (case filepath_of db collection of
             Inl e \<Rightarrow> (Inl e, w)
           | Inr filepath \<Rightarrow>
               (case readFile filepath w of
                  (data, w1) \<Rightarrow>
                    (case filter_data data filterSpec of
                       Inl e \<Rightarrow> (Inl e, w1)
                     | Inr found \<Rightarrow> (Inr (first found), w1)))))"

definition findById :: "database \<Rightarrow> jsval \<Rightarrow> jsval \<Rightarrow> world \<Rightarrow> (error + jsval) \<times> world" where
  "findById db collection ident w =
     (case name_check collection of
        Some e \<Rightarrow> (Inl e, w)
      | None \<Rightarrow>
          (case filepath_of db collection of
             Inl e \<Rightarrow> (Inl e, w)
           | Inr filepath \<Rightarrow>
               (case readFile filepath w of
                  (data, w1) \<Rightarrow>
                    (case filter_data data (JObj [(''_id'', ident)]) of
                       Inl e \<Rightarrow> (Inl e, w1)
                     | Inr found \<Rightarrow> (Inr (first found), w1)))))"

definition updateMany :: "database \<Rightarrow> jsval \<Rightarrow> jsval \<Rightarrow> jsval \<Rightarrow> world \<Rightarrow> (error + unit) \<times> world" where
  "updateMany db collection filterSpec updates w =
     (case name_check collection of
        Some e \<Rightarrow> (Inl e, w)
      | None \<Rightarrow>
          (case filepath_of db collection of
             Inl e \<Rightarrow> (Inl e, w)
           | Inr filepath \<Rightarrow>
               (case readFile filepath w of
                  (data, w1) \<Rightarrow>
                    (case update data filterSpec updates of
                       Inl e \<Rightarrow> (Inl e, w1)
                     | Inr data' \<Rightarrow> writeFile filepath data' w1))))"

definition updateById :: "database \<Rightarrow> jsval \<Rightarrow> jsval \<Rightarrow> jsval \<Rightarrow> world \<Rightarrow> (error + unit) \<times> world" where
  "updateById db collection ident updates w =
     (case name_check collection of
        Some e \<Rightarrow> (Inl e, w)
      | None \<Rightarrow>
          (case filepath_of db collection of
             Inl e \<Rightarrow> (Inl e, w)
           | Inr filepath \<Rightarrow>
               (case readFile filepath w of
                  (data, w1) \<Rightarrow>
                    (case update data (JObj [(''_id'', ident)]) updates of
                       Inl e \<Rightarrow> (Inl e, w1)
                     | Inr data' \<Rightarrow> writeFile filepath data' w1))))"

definition deleteMany :: "database \<Rightarrow> jsval \<Rightarrow> jsval \<Rightarrow> world \<Rightarrow> (error + unit) \<times> world" where
  "deleteMany db collection filterSpec w =
     (case name_check collection of
        Some e \<Rightarrow> (Inl e, w)
      | None \<Rightarrow>
          (case filepath_of db collection of
             Inl e \<Rightarrow> (Inl e, w)
           | Inr filepath \<Rightarrow>
               (case readFile filepath w of
                  (data, w1) \<Rightarrow>
                    (case erase data filterSpec of
                       Inl e \<Rightarrow> (Inl e, w1)
                     | Inr data' \<Rightarrow> writeFile filepath data' w1))))"

definition deleteById :: "database \<Rightarrow> jsval \<Rightarrow> jsval \<Rightarrow> world \<Rightarrow> (error + unit) \<times> world" where
  "deleteById db collection ident w =
     (case name_check collection of
        Some e \<Rightarrow> (Inl e, w)
      | None \<Rightarrow>
          (case filepath_of db collection of
             Inl e \<Rightarrow> (Inl e, w)
           | Inr filepath \<Rightarrow>
               (case readFile filepath w of
                  (data, w1) \<Rightarrow>
                    (case erase data (JObj [(''_id'', ident)]) of
                       Inl e \<Rightarrow> (Inl e, w1)
                     | Inr data' \<Rightarrow> writeFile filepath data' w1))))"

text \<open>
  The public interface of class \<open>Database\<close> as one function, so that a statement can range
  over every operation. \<open>Update\<close> and \<open>Delete\<close> are the methods \<open>update\<close> and \<open>delete\<close>.
\<close>

datatype operation =
    InsertOne jsval
  | InsertMany jsval
  | FindById jsval
  | FindMany jsval
  | FindOne jsval
  | UpdateById jsval jsval
  | Update jsval jsval
  | Delete jsval
  | DeleteById jsval

datatype outcome = Done | Document jsval | Documents "jsval list"

definition returning :: "('a \<Rightarrow> outcome) \<Rightarrow> (error + 'a) \<times> world \<Rightarrow> (error + outcome) \<times> world" where
  "returning f r = (case fst r of Inl e \<Rightarrow> Inl e | Inr x \<Rightarrow> Inr (f x), snd r)"

fun run :: "database \<Rightarrow> jsval \<Rightarrow> operation \<Rightarrow> world \<Rightarrow> (error + outcome) \<times> world" where
  "run db c (InsertOne document) w = returning (\<lambda>u. Done) (insertOne db c document w)"
| "run db c (InsertMany docs) w = returning (\<lambda>u. Done) (insertMany db c docs w)"
| "run db c (FindById ident) w = returning Document (findById db c ident w)"
| "run db c (FindMany filterSpec) w = returning Documents (findMany db c filterSpec w)"
| "run db c (FindOne filterSpec) w = returning Document (findOne db c filterSpec w)"
| "run db c (UpdateById ident updates) w = returning (\<lambda>u. Done) (updateById db c ident updates w)"
| "run db c (Update filterSpec updates) w = returning (\<lambda>u. Done) (updateMany db c filterSpec updates w)"
| "run db c (Delete filterSpec) w = returning (\<lambda>u. Done) (deleteMany db c filterSpec w)"
| "run db c (DeleteById ident) w = returning (\<lambda>u. Done) (deleteById db c ident w)"

section \<open>Vocabulary of the specification\<close>

text \<open>\<open>field d k\<close> is the own field \<open>k\<close> of the properties \<open>d\<close> of a plain object.\<close>

definition field :: "(string \<times> jsval) list \<Rightarrow> string \<Rightarrow> jsval" where
  "field kvs key = (case map_of kvs key of None \<Rightarrow> JUndefined | Some v \<Rightarrow> v)"

text \<open>
  \<open>read d k\<close> is \<open>d[k]\<close> for the properties \<open>d\<close> of a plain object: the own field, else
  what \<open>Object.prototype\<close> has under \<open>k\<close>, else \<open>undefined\<close>.
\<close>

definition read :: "(string \<times> jsval) list \<Rightarrow> string \<Rightarrow> lookup" where
  "read d k =
     (case map_of d k of
        Some v \<Rightarrow> Value v
      | None \<Rightarrow> if k \<in> set objectPrototype then Builtin else Value JUndefined)"

text \<open>
  A filter specification maps a field name to a scalar or to a sequence of scalars; a
  nested object is no filter value.
\<close>

definition filter_value :: "jsval \<Rightarrow> bool" where
  "filter_value c =
     (case c of
        JArr vs \<Rightarrow> list_all (\<lambda>v. \<not> is_reference v) vs
      | JObj kvs \<Rightarrow> False
      | _ \<Rightarrow> True)"

text \<open>
  What the specification asks of a document \<open>d\<close> for one key \<open>k\<close> of a filter with its
  value \<open>c\<close>: membership of \<open>d[k]\<close> when \<open>c\<close> is a sequence, equality otherwise.
\<close>

definition key_holds :: "(string \<times> jsval) list \<Rightarrow> string \<Rightarrow> jsval \<Rightarrow> bool" where
  "key_holds d k c =
     (case c of
        JArr vs \<Rightarrow> read d k \<in> Value ` set vs
      | _ \<Rightarrow> read d k = Value c)"

text \<open>A plain mapping: an object that is neither \<open>null\<close> nor an array.\<close>

fun plain_mapping :: "jsval \<Rightarrow> bool" where
  "plain_mapping (JObj kvs) = True"
| "plain_mapping v = False"

text \<open>\<open>d\<close> matches the filter \<open>f\<close>: \<open>matches(d, f)\<close> returns true.\<close>

definition matching :: "jsval \<Rightarrow> jsval \<Rightarrow> bool" where
  "matching d f = (matches d f = Inr True)"

text \<open>The documents stored at a path, as \<open>readFile\<close> returns them.\<close>

definition stored :: "world \<Rightarrow> string \<Rightarrow> jsval list" where
  "stored w filepath = (case fst (readFile filepath w) of JArr docs \<Rightarrow> docs | _ \<Rightarrow> [])"

text \<open>The document \<open>d\<close> after \<open>Object.assign(d, u)\<close> for the properties \<open>u\<close> of an update.\<close>

definition merged :: "jsval \<Rightarrow> (string \<times> jsval) list \<Rightarrow> jsval" where
  "merged d u = (case Object_assign d (JObj u) of Inl e \<Rightarrow> d | Inr d' \<Rightarrow> d')"

text \<open>A document: a plain object of JSON values.\<close>

fun is_document :: "jsval \<Rightarrow> bool" where
  "is_document (JObj kvs) = is_json (JObj kvs)"
| "is_document v = False"

text \<open>The own fields of a document, by name.\<close>

fun fields :: "jsval \<Rightarrow> string \<rightharpoonup> jsval" where
  "fields (JObj kvs) = map_of kvs"
| "fields v = Map.empty"

text \<open>
  The collection at a path holds the documents \<open>docs\<close>: that is what \<open>readFile\<close> returns
  there; a collection that has no file yet holds none.
\<close>

definition holds :: "world \<Rightarrow> string \<Rightarrow> jsval list \<Rightarrow> bool" where
  "holds w filepath docs =
     (fst (readFile filepath w) = JArr docs \<and> list_all is_document docs)"

text \<open>The path of a collection whose name passes the check.\<close>

definition path_of :: "database \<Rightarrow> jsval \<Rightarrow> string" where
  "path_of db c = (case filepath_of db c of Inl e \<Rightarrow> [] | Inr filepath \<Rightarrow> filepath)"

text \<open>The \<open>_id\<close> of a stored value.\<close>

definition id_of :: "jsval \<Rightarrow> jsval" where
  "id_of d = (case getProp d ''_id'' of Inr (Value v) \<Rightarrow> v | _ \<Rightarrow> JUndefined)"

text \<open>
  The documents that an id \<open>i\<close> selects, by their \<open>_id\<close> \<open>x\<close>: those with \<open>x\<close> equal to a
  scalar \<open>i\<close>, and those with \<open>x\<close> among the scalar elements of an array \<open>i\<close>.
\<close>

definition selects :: "jsval \<Rightarrow> jsval \<Rightarrow> bool" where
  "selects i x =
     (case i of
        JArr vs \<Rightarrow> x \<in> set (filter (\<lambda>v. \<not> is_reference v) vs)
      | JObj kvs \<Rightarrow> False
      | _ \<Rightarrow> x = i)"

text \<open>The identifier the specification promises: a non-empty string.\<close>

definition string_id :: "jsval \<Rightarrow> bool" where
  "string_id d = (case id_of d of JStr s \<Rightarrow> s \<noteq> [] | _ \<Rightarrow> False)"

definition letters :: string where
  "letters = ''ABCDEFGHIJKLMNOPQRSTUVWXYZabcdefghijklmnopqrstuvwxyz''"

subsection \<open>Concrete inputs\<close>

text \<open>A database rooted at \<open>db\<close>, a world with no file, and the family of the repository's test.\<close>

definition db0 :: database where
  "db0 = \<lparr>directory = ''db''\<rparr>"

definition world0 :: world where
  "world0 = \<lparr>files = Map.empty, trace = [], entropy = (\<lambda>i. of_nat (17 * i + 3))\<rparr>"

definition person :: "string \<Rightarrow> rat \<Rightarrow> string \<Rightarrow> string \<Rightarrow> jsval" where
  "person name age relation occupation =
     JObj [(''name'', JStr name), (''age'', JNum (Fin age)),
           (''relation'', JStr relation), (''occupation'', JStr occupation)]"

definition family :: "jsval list" where
  "family =
     [person ''Alice'' 35 ''mother'' ''Teacher'',
      person ''Ben'' 37 ''father'' ''Engineer'',
      person ''Olivia'' 10 ''daughter'' ''Student'',
      person ''Liam'' 7 ''son'' ''Student'',
      person ''Max'' 4 ''son'' ''Preschooler'']"

text \<open>A world whose \<open>users\<close> collection file holds a JSON object instead of an array.\<close>

definition world_obj :: world where
  "world_obj =
     world0\<lparr>files := [''db/users.json'' \<mapsto> Json (JObj [(''name'', JStr ''Alice'')])]\<rparr>"

text \<open>
  Scenario D of the specification: the family is inserted into the empty collection \<open>fam\<close>
  and the documents named Liam are deleted.
\<close>

definition world_family :: world where
  "world_family = snd (insertMany db0 (JStr ''fam'') (JArr family) world0)"

definition world_without_Liam :: world where
  "world_without_Liam =
     snd (deleteMany db0 (JStr ''fam'') (JObj [(''name'', JStr ''Liam'')]) world_family)"

text \<open>A collection of two documents with different identifiers.\<close>

definition two_docs :: "jsval list" where
  "two_docs =
     [JObj [(''_id'', JStr ''a''), (''n'', JNum (Fin 1))],
      JObj [(''_id'', JStr ''b''), (''n'', JNum (Fin 2))]]"

definition world_two :: world where
  "world_two = world0\<lparr>files := [''db/two.json'' \<mapsto> Json (JArr two_docs)]\<rparr>"

text \<open>Every document of that collection is given the \<open>_id\<close> \<open>x\<close>.\<close>

definition world_two_x :: world where
  "world_two_x =
     snd (updateMany db0 (JStr ''two'') (JObj []) (JObj [(''_id'', JStr ''x'')]) world_two)"

text \<open>
  An update parsed from the JSON text \<open>{"__proto__": {"z": 1}, "n": 9}\<close>: \<open>JSON.parse\<close>
  makes \<open>__proto__\<close> an own property.
\<close>

definition proto_update :: jsval where
  "proto_update = JObj [(''__proto__'', JObj [(''z'', JNum (Fin 1))]), (''n'', JNum (Fin 9))]"

section \<open>The predicate matcher\<close>

lemma getProp_JObj: "getProp (JObj kvs) key = Inr (read kvs key)"
  by (simp add: read_def inherited_def split: option.splits)

lemma read_own: "map_of d k = Some v \<Longrightarrow> read d k = Value v"
  by (simp add: read_def)

lemma read_field: "k \<notin> set objectPrototype \<Longrightarrow> read d k = Value (field d k)"
  by (simp add: read_def field_def split: option.splits)

lemma field_json:
  assumes "is_json (JObj d)"
  shows "is_json (field d k) \<or> field d k = JUndefined"
proof (cases "map_of d k")
  case None
  then show ?thesis by (simp add: field_def)
next
  case (Some v)
  then have "(k, v) \<in> set d" by (rule map_of_SomeD)
  with assms have "is_json v" by (auto simp: list_all_iff)
  with Some show ?thesis by (simp add: field_def)
qed

lemma field_not_NaN: "is_json (JObj d) \<Longrightarrow> field d k \<noteq> JNum NaN"
  using field_json [of d k] by auto

lemma read_not_NaN:
  assumes "is_json (JObj d)"
  shows "read d k \<noteq> Value (JNum NaN)"
proof (cases "map_of d k")
  case None
  then show ?thesis by (simp add: read_def)
next
  case (Some v)
  then have "field d k = v" by (simp add: field_def)
  with field_not_NaN [OF assms, of k] Some show ?thesis by (simp add: read_def)
qed

lemma includes_scalars:
  assumes "list_all (\<lambda>v. \<not> is_reference v) vs"
  shows "array_includes vs x = (x \<in> Value ` set vs)"
proof (cases x)
  case (Value b)
  with assms show ?thesis
    by (auto simp: array_includes_def list_ex_iff list_all_iff)
next
  case Builtin
  then show ?thesis by (auto simp: array_includes_def list_ex_iff)
qed

lemma strict_eq_scalar:
  "\<not> is_reference c \<Longrightarrow> x \<noteq> Value (JNum NaN) \<Longrightarrow> strict_eq x c = (x = Value c)"
  by (cases x) auto

lemma criterion_test:
  assumes "filter_value c" and "x \<noteq> Value (JNum NaN)"
  shows "(case c of JArr vs \<Rightarrow> array_includes vs x | _ \<Rightarrow> strict_eq x c)
         = (case c of JArr vs \<Rightarrow> x \<in> Value ` set vs | _ \<Rightarrow> x = Value c)"
  using assms by (cases c) (simp_all add: filter_value_def includes_scalars strict_eq_scalar)

lemma every_entry_iff:
  assumes "is_json (JObj d)" and "list_all (\<lambda>kv. filter_value (snd kv)) f"
  shows "every_entry (JObj d) f = Inr (\<forall>kv \<in> set f. key_holds d (fst kv) (snd kv))"
  using assms(2)
proof (induction f)
  case Nil
  then show ?case by simp
next
  case (Cons kv f)
  have fv: "filter_value (snd kv)" using Cons.prems by simp
  have nn: "read d (fst kv) \<noteq> Value (JNum NaN)" using assms(1) by (rule read_not_NaN)
  have step: "(case snd kv of JArr vs \<Rightarrow> array_includes vs (read d (fst kv))
                | _ \<Rightarrow> strict_eq (read d (fst kv)) (snd kv)) = key_holds d (fst kv) (snd kv)"
    using criterion_test [OF fv nn] by (simp add: key_holds_def)
  have ih: "every_entry (JObj d) f = Inr (\<forall>kv \<in> set f. key_holds d (fst kv) (snd kv))"
    using Cons by simp
  show ?case
    by (simp only: every_entry.simps getProp_JObj sum.case step ih) auto
qed

lemma keys_of_entries: "Object_keys v = Inr keys \<Longrightarrow> map fst (own_entries v) = keys"
  by (cases v) auto

lemma filter_v1_agrees:
  "non_null_object filterSpec \<Longrightarrow> filter_v1 data filterSpec = filter_data data filterSpec"
  by (simp add: filter_v1_def filter_data_def split: jsval.splits)

text \<open>
  Claim C1. For a document \<open>d\<close> and a filter specification \<open>f\<close> (each value a scalar or a
  sequence of scalars), \<open>matches(d, f)\<close> returns, and returns true exactly when every key
  \<open>k\<close> of \<open>f\<close> holds: \<open>d[k]\<close> is a member of \<open>f[k]\<close> when \<open>f[k]\<close> is a sequence, and
  \<open>d[k]\<close> equals \<open>f[k]\<close> otherwise. Here \<open>d[k]\<close> is the property read of JavaScript: for a
  key that \<open>d\<close> does not have but \<open>Object.prototype\<close> has, it is the built-in, which no
  filter value equals. The empty filter matches every value.
\<close>

theorem matches_iff_every_key:
  "(is_json (JObj d) \<and> list_all (\<lambda>kv. filter_value (snd kv)) f \<longrightarrow>
      matches (JObj d) (JObj f) = Inr (\<forall>kv \<in> set f. key_holds d (fst kv) (snd kv)))
   \<and> matches obj (JObj []) = Inr True"
proof (intro conjI impI)
  assume a: "is_json (JObj d) \<and> list_all (\<lambda>kv. filter_value (snd kv)) f"
  then have "every_entry (JObj d) f = Inr (\<forall>kv \<in> set f. key_holds d (fst kv) (snd kv))"
    by (intro every_entry_iff) simp_all
  then show "matches (JObj d) (JObj f) = Inr (\<forall>kv \<in> set f. key_holds d (fst kv) (snd kv))"
    by (simp add: matches_def)
next
  show "matches obj (JObj []) = Inr True" by (simp add: matches_def)
qed

theorem matches_iff_every_key_witness:
  "is_json (JObj [(''name'', JStr ''Liam''), (''age'', JNum (Fin 7))])
   \<and> list_all (\<lambda>kv. filter_value (snd kv))
        [(''name'', JStr ''Liam''), (''age'', JArr [JNum (Fin 4), JNum (Fin 7)])]
   \<and> matches (JObj [(''name'', JStr ''Liam''), (''age'', JNum (Fin 7))])
        (JObj [(''name'', JStr ''Liam''), (''age'', JArr [JNum (Fin 4), JNum (Fin 7)])])
      = Inr True
   \<and> list_all (\<lambda>kv. filter_value (snd kv)) [(''constructor'', JUndefined)]
   \<and> matches (JObj [(''name'', JStr ''Liam''), (''age'', JNum (Fin 7))])
        (JObj [(''constructor'', JUndefined)])
      = Inr False
   \<and> matches (JObj [(''name'', JStr ''Liam''), (''age'', JNum (Fin 7))])
        (JObj [(''nickname'', JUndefined)])
      = Inr True
   \<and> matches JNull (JObj []) = Inr True"
  using matches_iff_every_key
    [of "[(''name'', JStr ''Liam''), (''age'', JNum (Fin 7))]"
        "[(''name'', JStr ''Liam''), (''age'', JArr [JNum (Fin 4), JNum (Fin 7)])]"
        JNull]
    matches_iff_every_key
    [of "[(''name'', JStr ''Liam''), (''age'', JNum (Fin 7))]"
        "[(''constructor'', JUndefined)]" JNull]
    matches_iff_every_key
    [of "[(''name'', JStr ''Liam''), (''age'', JNum (Fin 7))]"
        "[(''nickname'', JUndefined)]" JNull]
  by (simp add: filter_value_def key_holds_def read_def objectPrototype_def)

section \<open>Collection names\<close>

lemma name_check_valid: "validateAlphabetical c = Inr True \<Longrightarrow> name_check c = None"
  by (simp add: name_check_def)

lemma name_check_invalid:
  "validateAlphabetical c = Inr False \<Longrightarrow> name_check c = Some ReferenceError"
  by (simp add: name_check_def)

lemma name_check_throws: "validateAlphabetical c = Inl e \<Longrightarrow> name_check c = Some e"
  by (simp add: name_check_def)

lemma valid_name_text:
  assumes "validateAlphabetical c = Inr True"
  obtains name where "ToString c = Inr (Text name)" and "name \<noteq> []" and "list_all is_alpha name"
proof -
  from assms obtain t where t: "ToString c = Inr t" and a: "alphabetical t"
    by (auto simp: validateAlphabetical_def split: sum.splits)
  from a obtain name where "t = Text name" and "name \<noteq> []" and "list_all is_alpha name"
    by (cases t) (simp_all add: alphabetical_def)
  with t that show ?thesis by simp
qed

lemma filepath_valid:
  assumes "validateAlphabetical c = Inr True"
  shows "filepath_of db c = Inr (path_of db c)"
proof -
  from assms obtain name where "ToString c = Inr (Text name)" by (rule valid_name_text)
  then show ?thesis by (simp add: filepath_of_def path_of_def)
qed

lemma valid_string: "validateAlphabetical (JStr s) = Inr (s \<noteq> [] \<and> list_all is_alpha s)"
  by (simp add: validateAlphabetical_def alphabetical_def)

lemma path_string: "path_of db (JStr s) = directory db @ ''/'' @ s @ ''.json''"
  by (simp add: path_of_def filepath_of_def)

lemma valid_users: "validateAlphabetical (JStr ''users'') = Inr True"
  by (simp add: valid_string is_alpha_def)

lemma valid_fam: "validateAlphabetical (JStr ''fam'') = Inr True"
  by (simp add: valid_string is_alpha_def)

lemma valid_two: "validateAlphabetical (JStr ''two'') = Inr True"
  by (simp add: valid_string is_alpha_def)

text \<open>The methods on a collection whose name passes the check.\<close>

lemma findMany_valid:
  "validateAlphabetical c = Inr True \<Longrightarrow>
   findMany db c filterSpec w =
     (filter_data (fst (readFile (path_of db c) w)) filterSpec,
      snd (readFile (path_of db c) w))"
  by (simp add: findMany_def name_check_valid filepath_valid split: prod.splits)

lemma findOne_valid:
  "validateAlphabetical c = Inr True \<Longrightarrow>
   findOne db c filterSpec w =
     (case filter_data (fst (readFile (path_of db c) w)) filterSpec of
        Inl e \<Rightarrow> (Inl e, snd (readFile (path_of db c) w))
      | Inr found \<Rightarrow> (Inr (first found), snd (readFile (path_of db c) w)))"
  by (cases "readFile (path_of db c) w") (simp add: findOne_def name_check_valid filepath_valid split: sum.splits)

lemma findById_findOne:
  "findById db c ident w = findOne db c (JObj [(''_id'', ident)]) w"
  by (simp add: findById_def findOne_def)

lemma updateMany_valid:
  "validateAlphabetical c = Inr True \<Longrightarrow>
   updateMany db c filterSpec updates w =
     (case update (fst (readFile (path_of db c) w)) filterSpec updates of
        Inl e \<Rightarrow> (Inl e, snd (readFile (path_of db c) w))
      | Inr data' \<Rightarrow> writeFile (path_of db c) data' (snd (readFile (path_of db c) w)))"
  by (cases "readFile (path_of db c) w") (simp add: updateMany_def name_check_valid filepath_valid split: sum.splits)

lemma updateById_updateMany:
  "updateById db c ident updates w = updateMany db c (JObj [(''_id'', ident)]) updates w"
  by (simp add: updateById_def updateMany_def)

lemma deleteMany_valid:
  "validateAlphabetical c = Inr True \<Longrightarrow>
   deleteMany db c filterSpec w =
     (case erase (fst (readFile (path_of db c) w)) filterSpec of
        Inl e \<Rightarrow> (Inl e, snd (readFile (path_of db c) w))
      | Inr data' \<Rightarrow> writeFile (path_of db c) data' (snd (readFile (path_of db c) w)))"
  by (cases "readFile (path_of db c) w") (simp add: deleteMany_def name_check_valid filepath_valid split: sum.splits)

lemma deleteById_deleteMany:
  "deleteById db c ident w = deleteMany db c (JObj [(''_id'', ident)]) w"
  by (simp add: deleteById_def deleteMany_def)

section \<open>The collection file codec\<close>

lemma serialize_json: "is_json v \<Longrightarrow> serialize v = v"
proof (induction v)
  case (JArr xs)
  then have "map serialize xs = xs"
    by (intro map_idI) (simp add: list_all_iff)
  then show ?case by simp
next
  case (JObj kvs)
  have keep: "filter (\<lambda>kv. snd kv \<noteq> JUndefined) kvs = kvs"
    using JObj.prems by (intro filter_True) (auto simp: list_all_iff)
  have "map (\<lambda>kv. (fst kv, serialize (snd kv))) kvs = kvs"
  proof (intro map_idI)
    fix kv assume m: "kv \<in> set kvs"
    with JObj.prems have "is_json (snd kv)" by (simp add: list_all_iff)
    with m have "serialize (snd kv) = snd kv"
      by (intro JObj.IH [of kv "snd kv"]) (cases kv; simp)+
    then show "(fst kv, serialize (snd kv)) = kv" by simp
  qed
  with keep show ?case by simp
qed (simp_all split: jsnum.splits)

lemma writeFile_json:
  "is_json data \<Longrightarrow>
   writeFile filepath data w =
     (Inr (), w\<lparr>files := (files w)(filepath \<mapsto> Json data),
                trace := trace w @ [WriteFileSync filepath]\<rparr>)"
  by (auto simp: writeFile_def JSON_stringify_def serialize_json)

text \<open>
  Claim C7. For every path, so for the path of every valid collection name, and every
  sequence \<open>docs\<close> of JSON-representable documents, \<open>writeFile\<close> succeeds and \<open>readFile\<close>
  then returns \<open>docs\<close> itself: the same documents in the same order, with the same keys and
  values, which is more than equality up to the order of keys.
\<close>

theorem save_load_roundtrip:
  "list_all is_json docs \<longrightarrow>
     fst (writeFile filepath (JArr docs) w) = Inr ()
     \<and> fst (readFile filepath (snd (writeFile filepath (JArr docs) w))) = JArr docs"
proof
  assume "list_all is_json docs"
  then have "is_json (JArr docs)" by simp
  then show "fst (writeFile filepath (JArr docs) w) = Inr ()
     \<and> fst (readFile filepath (snd (writeFile filepath (JArr docs) w))) = JArr docs"
    by (simp add: writeFile_json readFile_def JSON_parse_def)
qed

theorem save_load_roundtrip_witness:
  "list_all is_json family
   \<and> fst (writeFile ''db/fam.json'' (JArr family) world0) = Inr ()
   \<and> fst (readFile ''db/fam.json'' (snd (writeFile ''db/fam.json'' (JArr family) world0)))
       = JArr family"
  using save_load_roundtrip [of family "''db/fam.json''" world0]
  by (simp add: family_def person_def)

text \<open>
  Claim C3, as stated, fails: a collection file that holds valid JSON which is not an array
  is returned by \<open>readFile\<close> as it is, neither as an error nor as the empty sequence, and
  \<open>findMany\<close> then throws.
\<close>

theorem readFile_non_array_counterexample:
  "fst (readFile ''db/users.json'' world_obj) = JObj [(''name'', JStr ''Alice'')]
   \<and> fst (findMany db0 (JStr ''users'') (JObj []) world_obj) = Inl TypeError"
  by (simp add: world_obj_def world0_def db0_def readFile_def JSON_parse_def
      findMany_valid [OF valid_users] path_string filter_data_def)

text \<open>
  Claim C3, amended. \<open>readFile\<close> never throws and never changes a file. It returns the empty
  sequence when the file does not exist and when its content is not valid JSON; when the
  content is valid JSON it returns the parsed value, array or not. A value that is not an
  array makes \<open>findMany\<close> throw a \<open>TypeError\<close>.
\<close>

theorem readFile_returns:
  "fst (readFile filepath w) =
     (case files w filepath of
        None \<Rightarrow> JArr []
      | Some Malformed \<Rightarrow> JArr []
      | Some (Json v) \<Rightarrow> v)
   \<and> files (snd (readFile filepath w)) = files w
   \<and> (validateAlphabetical c = Inr True \<and> files w (path_of db c) = Some (Json v)
       \<and> \<not> isArray v
        \<longrightarrow> fst (findMany db c filterSpec w) = Inl TypeError)"
proof (intro conjI impI)
  show "fst (readFile filepath w) =
     (case files w filepath of
        None \<Rightarrow> JArr []
      | Some Malformed \<Rightarrow> JArr []
      | Some (Json v) \<Rightarrow> v)"
    by (simp add: readFile_def JSON_parse_def split: option.splits file_text.splits)
  show "files (snd (readFile filepath w)) = files w"
    by (simp add: readFile_def split: option.splits)
next
  assume a: "validateAlphabetical c = Inr True \<and> files w (path_of db c) = Some (Json v)
       \<and> \<not> isArray v"
  then have "fst (readFile (path_of db c) w) = v"
    by (simp add: readFile_def JSON_parse_def)
  moreover from a have "filter_data v filterSpec = Inl TypeError"
    by (cases v) (simp_all add: filter_data_def)
  ultimately show "fst (findMany db c filterSpec w) = Inl TypeError"
    using a by (simp add: findMany_valid)
qed

theorem readFile_returns_witness:
  "validateAlphabetical (JStr ''users'') = Inr True
   \<and> files world_obj (path_of db0 (JStr ''users''))
       = Some (Json (JObj [(''name'', JStr ''Alice'')]))
   \<and> \<not> isArray (JObj [(''name'', JStr ''Alice'')])
   \<and> fst (readFile ''db/none.json'' world_obj) = JArr []
   \<and> fst (findMany db0 (JStr ''users'') (JObj [(''name'', JStr ''Alice'')]) world_obj)
       = Inl TypeError"
  using readFile_returns [of "''db/none.json''" world_obj "JStr ''users''" db0
      "JObj [(''name'', JStr ''Alice'')]" "JObj [(''name'', JStr ''Alice'')]"]
    valid_users
  by (simp add: world_obj_def world0_def db0_def path_string)

section \<open>The document identity assigner\<close>

lemma map_of_setProp: "map_of (setProp kvs k v) = (map_of kvs)(k \<mapsto> v)"
  by (induction kvs k v rule: setProp.induct) (auto simp: fun_eq_iff)

lemma field_setProp: "field (setProp kvs k v) k' = (if k' = k then v else field kvs k')"
  by (simp add: field_def map_of_setProp)

lemma keys_setProp:
  "map fst (setProp kvs k v) = (if k \<in> set (map fst kvs) then map fst kvs else map fst kvs @ [k])"
  by (induction kvs k v rule: setProp.induct) auto

lemma hex_byte:
  assumes "n < 256"
  shows "padStart (toString16 n) 2 (CHR ''0'') = [digit (n div 16), digit (n mod 16)]"
proof (cases "n < 16")
  case True
  then have "toString16 n = [digit n]" by (simp add: toString16.simps [of n])
  with True show ?thesis by (simp add: padStart_def digit_def)
next
  case False
  with assms have "n div 16 < 16" by simp
  then have "toString16 (n div 16) = [digit (n div 16)]"
    by (simp add: toString16.simps [of "n div 16"])
  with False have "toString16 n = [digit (n div 16), digit (n mod 16)]"
    by (simp add: toString16.simps [of n])
  then show ?thesis by (simp add: padStart_def)
qed

lemma digit_hex: "d < 16 \<Longrightarrow> digit d \<in> set ''0123456789abcdef''"
  unfolding digit_def by (rule nth_mem) simp

lemma unat_byte: "unat (b :: 8 word) < 256"
  using unsigned_less [of b] by simp

lemma randomHex_bytes:
  "fst (randomHex n w) =
     concat (map (\<lambda>i. [digit (unat (entropy w i) div 16), digit (unat (entropy w i) mod 16)]) [0..<n])"
  by (simp add: randomHex_def getRandomValues_def hex_byte unat_byte comp_def)

lemma randomHex_length: "length (fst (randomHex n w)) = 2 * n"
  by (simp add: randomHex_bytes length_concat comp_def sum_list_triv)

lemma randomHex_hex: "set (fst (randomHex n w)) \<subseteq> set ''0123456789abcdef''"
proof -
  have "digit (unat (entropy w i) div 16) \<in> set ''0123456789abcdef''" for i
    using unat_byte [of "entropy w i"] by (intro digit_hex) simp
  moreover have "digit (unat (entropy w i) mod 16) \<in> set ''0123456789abcdef''" for i
    by (intro digit_hex) simp
  ultimately show ?thesis
    unfolding randomHex_bytes by auto
qed

lemma randomHex_nonempty: "fst (randomHex 8 w) \<noteq> []"
  using randomHex_length [of 8 w] by auto

lemma id_not_inherited: "''_id'' \<notin> set objectPrototype"
  by (simp add: objectPrototype_def)

lemma read_id: "read d ''_id'' = Value (field d ''_id'')"
  using id_not_inherited by (rule read_field)

lemma assignObj_id: "assignObj d ''_id'' v = setProp d ''_id'' v"
  by (simp add: assignObj_def)

lemma validateDoc_plain:
  "validateDoc (JObj d) w =
     (if falsy (field d ''_id'')
      then (Inr (JObj (setProp d ''_id'' (JStr (fst (randomHex 8 w))))), snd (randomHex 8 w))
      else (Inr (JObj d), w))"
  by (simp add: validateDoc_def non_object_value_def getProp_JObj read_id assignObj_id
      del: getProp.simps split: prod.splits)

lemma id_of_JObj: "id_of (JObj d) = field d ''_id''"
  by (simp add: id_of_def getProp_JObj read_id del: getProp.simps)

text \<open>
  Claim C2, as stated, fails: a document whose \<open>_id\<close> is the number 42 is returned as it is,
  and its \<open>_id\<close> is not a string.
\<close>

theorem validateDoc_string_id_counterexample:
  "fst (validateDoc (JObj [(''_id'', JNum (Fin 42))]) world0) = Inr (JObj [(''_id'', JNum (Fin 42))])
   \<and> \<not> string_id (JObj [(''_id'', JNum (Fin 42))])"
  by (simp add: validateDoc_plain field_def string_id_def id_of_JObj)

text \<open>
  Claim C2, amended. For every plain-mapping document \<open>d\<close>, \<open>validateDoc\<close> returns \<open>d\<close> with
  its \<open>_id\<close> set to a fresh identifier when \<open>d\<close> has no \<open>_id\<close> or a falsy one, and \<open>d\<close>
  unchanged otherwise. The fresh identifier is the string of 16 lower-case hexadecimal digits
  that writes the next 8 bytes of the random source, two digits a byte; every other field
  keeps its value. The \<open>_id\<close> of the returned document is truthy (a non-empty string when it
  was generated, the caller's own value of whatever type otherwise), and \<open>validateDoc\<close>
  applied to the returned document, in any world, returns it unchanged and draws no bytes.
\<close>

theorem validateDoc_identity:
  "fst (validateDoc (JObj d) w) =
     Inr (JObj (if falsy (field d ''_id'')
                then setProp d ''_id'' (JStr (fst (randomHex 8 w))) else d))
   \<and> field (setProp d ''_id'' (JStr (fst (randomHex 8 w)))) k =
       (if k = ''_id'' then JStr (fst (randomHex 8 w)) else field d k)
   \<and> length (fst (randomHex 8 w)) = 16
   \<and> set (fst (randomHex 8 w)) \<subseteq> set ''0123456789abcdef''
   \<and> fst (randomHex 8 w) =
       concat (map (\<lambda>i. [digit (unat (entropy w i) div 16), digit (unat (entropy w i) mod 16)])
                 [0..<8])
   \<and> (fst (validateDoc (JObj d) w) = Inr d' \<longrightarrow>
        \<not> falsy (id_of d') \<and> validateDoc d' w' = (Inr d', w'))"
proof (intro conjI impI)
  show "fst (validateDoc (JObj d) w) =
     Inr (JObj (if falsy (field d ''_id'')
                then setProp d ''_id'' (JStr (fst (randomHex 8 w))) else d))"
    by (simp add: validateDoc_plain)
  show "field (setProp d ''_id'' (JStr (fst (randomHex 8 w)))) k =
       (if k = ''_id'' then JStr (fst (randomHex 8 w)) else field d k)"
    by (rule field_setProp)
  show "length (fst (randomHex 8 w)) = 16"
    by (simp add: randomHex_length)
  show "set (fst (randomHex 8 w)) \<subseteq> set ''0123456789abcdef''"
    by (rule randomHex_hex)
  show "fst (randomHex 8 w) =
       concat (map (\<lambda>i. [digit (unat (entropy w i) div 16), digit (unat (entropy w i) mod 16)])
                 [0..<8])"
    by (rule randomHex_bytes)
next
  assume r: "fst (validateDoc (JObj d) w) = Inr d'"
  show truthy: "\<not> falsy (id_of d')"
  proof (cases "falsy (field d ''_id'')")
    case True
    with r have "d' = JObj (setProp d ''_id'' (JStr (fst (randomHex 8 w))))"
      by (simp add: validateDoc_plain)
    then show ?thesis
      by (simp add: id_of_JObj field_setProp randomHex_nonempty)
  next
    case False
    with r have "d' = JObj d" by (simp add: validateDoc_plain)
    with False show ?thesis by (simp add: id_of_JObj)
  qed
  from r obtain kvs where d': "d' = JObj kvs"
    by (auto simp: validateDoc_plain split: if_splits)
  with truthy show "validateDoc d' w' = (Inr d', w')"
    by (simp add: validateDoc_plain id_of_JObj)
qed

theorem validateDoc_identity_witness:
  "fst (validateDoc (JObj [(''name'', JStr ''Alice'')]) world0)
     = Inr (JObj [(''name'', JStr ''Alice''), (''_id'', JStr ''031425364758697a'')])
   \<and> validateDoc (JObj [(''name'', JStr ''Alice''), (''_id'', JStr ''031425364758697a'')]) world0
     = (Inr (JObj [(''name'', JStr ''Alice''), (''_id'', JStr ''031425364758697a'')]), world0)"
  using validateDoc_identity [of "[(''name'', JStr ''Alice'')]" world0 "''_id''"
      "JObj [(''name'', JStr ''Alice''), (''_id'', JStr ''031425364758697a'')]" world0]
  by (simp add: field_def world0_def digit_def upt_rec unat_of_nat)

section \<open>The collection store: validation\<close>

lemma is_alpha_letters: "is_alpha ch = (ch \<in> set letters)"
  by (cases ch) (simp add: is_alpha_def letters_def)

lemma valid_string_letters:
  "validateAlphabetical (JStr s) = Inr (s \<noteq> [] \<and> set s \<subseteq> set letters)"
  by (auto simp: valid_string list_all_iff is_alpha_letters)

lemma valid_name_letters:
  "(validateAlphabetical c = Inr True)
   = (\<exists>name. ToString c = Inr (Text name) \<and> name \<noteq> [] \<and> set name \<subseteq> set letters)"
proof
  assume "validateAlphabetical c = Inr True"
  then obtain name where "ToString c = Inr (Text name)" "name \<noteq> []" "list_all is_alpha name"
    by (rule valid_name_text)
  then show "\<exists>name. ToString c = Inr (Text name) \<and> name \<noteq> [] \<and> set name \<subseteq> set letters"
    by (auto simp: list_all_iff is_alpha_letters)
next
  assume "\<exists>name. ToString c = Inr (Text name) \<and> name \<noteq> [] \<and> set name \<subseteq> set letters"
  then show "validateAlphabetical c = Inr True"
    by (auto simp: validateAlphabetical_def alphabetical_def list_all_iff is_alpha_letters)
qed

lemma run_rejects:
  "name_check c = Some e \<Longrightarrow> run db c op w = (Inl e, w)"
  by (cases op)
    (simp_all add: returning_def insertOne_def insertMany_def findById_def findMany_def
      findOne_def updateById_def updateMany_def deleteMany_def deleteById_def)

lemma name_check_cases:
  "name_check c = (case validateAlphabetical c of
                     Inl e \<Rightarrow> Some e
                   | Inr ok \<Rightarrow> if ok then None else Some ReferenceError)"
  by (simp add: name_check_def split: sum.splits)

subsection \<open>The exceptions of the helpers\<close>

lemma ToString_error: "ToString v = Inl e \<Longrightarrow> e = TypeError"
proof (induction v arbitrary: e)
  case (JArr xs)
  have "join (map (\<lambda>x. if x = JUndefined \<or> x = JNull then Inr (Text []) else ToString x) ys)
          = Inl e \<Longrightarrow> set ys \<subseteq> set xs \<Longrightarrow> e = TypeError" for ys
  proof (induction ys rule: induct_list012)
    case 1
    then show ?case by simp
  next
    case (2 y)
    then show ?case using JArr.IH [of y e] by (auto split: if_splits)
  next
    case (3 y z zs)
    then show ?case using JArr.IH [of y e]
      by (auto split: if_splits sum.splits)
  qed
  with JArr.prems show ?case by simp
qed (auto split: if_splits)

lemma validateAlphabetical_error: "validateAlphabetical c = Inl e \<Longrightarrow> e = TypeError"
  by (auto simp: validateAlphabetical_def split: sum.splits dest: ToString_error)

lemma filepath_of_error: "filepath_of db c = Inl e \<Longrightarrow> e \<noteq> ReferenceError"
  by (auto simp: filepath_of_def split: sum.splits jstext.splits dest: ToString_error)

lemma getProp_error: "getProp v key = Inl e \<Longrightarrow> e = TypeError"
  by (cases v) simp_all

lemma Object_keys_error: "Object_keys v = Inl e \<Longrightarrow> e = TypeError"
  by (cases v) simp_all

lemma every_entry_error: "every_entry obj entries = Inl e \<Longrightarrow> e = TypeError"
  by (induction entries) (auto split: sum.splits if_splits dest: getProp_error)

lemma matches_error: "matches obj criteria = Inl e \<Longrightarrow> e = TypeError"
  by (auto simp: matches_def split: sum.splits dest: Object_keys_error every_entry_error)

lemma filter_loop_error: "filter_loop objs criteria = Inl e \<Longrightarrow> e = TypeError"
  by (induction objs arbitrary: e) (auto split: sum.splits dest: matches_error)

lemma filter_data_error: "filter_data data criteria = Inl e \<Longrightarrow> e = TypeError"
  by (auto simp: filter_data_def split: jsval.splits if_splits dest: filter_loop_error)

lemma array_length_of_error: "array_length_of v = Inl e \<Longrightarrow> e \<noteq> ReferenceError"
  by (cases v) (auto split: if_splits jsnum.splits)

lemma assignArr_error: "assignArr xs key v = Inl e \<Longrightarrow> e \<noteq> ReferenceError"
  by (auto simp: assignArr_def split: option.splits if_splits sum.splits
      dest: array_length_of_error)

lemma assignArr_all_error: "assignArr_all xs kvs = Inl e \<Longrightarrow> e \<noteq> ReferenceError"
  by (induction kvs arbitrary: xs) (auto split: sum.splits dest: assignArr_error)

lemma Object_assign_error: "Object_assign target source = Inl e \<Longrightarrow> e \<noteq> ReferenceError"
  by (cases target) (auto split: if_splits sum.splits dest: assignArr_all_error)

lemma update_loop_error: "update_loop objs criteria updates = Inl e \<Longrightarrow> e \<noteq> ReferenceError"
  by (induction objs arbitrary: e)
    (auto split: sum.splits if_splits dest: matches_error Object_assign_error)

lemma update_error: "update data criteria updates = Inl e \<Longrightarrow> e \<noteq> ReferenceError"
  by (auto simp: update_def split: jsval.splits if_splits sum.splits dest: update_loop_error)

lemma erase_loop_error: "erase_loop objs n criteria = Inl e \<Longrightarrow> e = TypeError"
  by (induction n arbitrary: objs) (auto split: sum.splits if_splits dest: matches_error)

lemma erase_error: "erase data criteria = Inl e \<Longrightarrow> e = TypeError"
  by (auto simp: erase_def split: jsval.splits if_splits sum.splits dest: erase_loop_error)

lemma push_error: "push data document = Inl e \<Longrightarrow> e = TypeError"
  by (auto simp: push_def split: jsval.splits)

lemma writeFile_error: "fst (writeFile filepath data w) = Inl e \<Longrightarrow> e = TypeError"
  by (auto simp: writeFile_def split: option.splits)

lemma writeFile_error_world: "fst (writeFile filepath data w) = Inl e \<Longrightarrow> snd (writeFile filepath data w) = w"
  by (auto simp: writeFile_def split: option.splits)

lemma validateDoc_error: "fst (validateDoc document w) = Inl e \<Longrightarrow> e = TypeError"
  by (auto simp: validateDoc_def split: if_splits sum.splits prod.splits dest: getProp_error)

lemma validateDoc_files: "files (snd (validateDoc document w)) = files w"
  by (auto simp: validateDoc_def randomHex_def getRandomValues_def split: sum.splits prod.splits)

lemma readFile_files: "files (snd (readFile filepath w)) = files w"
  by (simp add: readFile_def split: option.splits)

lemma insertMany_loop_error:
  "fst (insertMany_loop docs data w) = Inl e \<Longrightarrow> e = TypeError"
proof (induction docs arbitrary: data w)
  case Nil
  then show ?case by simp
next
  case (Cons document docs)
  obtain r w1 where v: "validateDoc document w = (r, w1)" by (cases "validateDoc document w")
  show ?case
  proof (cases r)
    case (Inl e')
    with v Cons.prems have "e = e'" by simp
    moreover from v Inl have "fst (validateDoc document w) = Inl e'" by simp
    ultimately show ?thesis by (auto dest: validateDoc_error)
  next
    case (Inr document')
    show ?thesis
    proof (cases "push data document'")
      case (Inl e')
      with v Inr Cons.prems have "e = e'" by simp
      with Inl show ?thesis by (auto dest: push_error)
    next
      case (Inr data')
      with v \<open>r = Inr document'\<close> Cons.prems
      have "fst (insertMany_loop docs data' w1) = Inl e" by simp
      then show ?thesis by (rule Cons.IH)
    qed
  qed
qed

lemma insertMany_loop_files: "files (snd (insertMany_loop docs data w)) = files w"
proof (induction docs arbitrary: data w)
  case Nil
  then show ?case by simp
next
  case (Cons document docs)
  obtain r w1 where v: "validateDoc document w = (r, w1)" by (cases "validateDoc document w")
  then have f1: "files w1 = files w" using validateDoc_files [of document w] by simp
  show ?case
    using v f1 Cons.IH by (auto split: sum.splits)
qed

lemma readFile_filesD: "readFile filepath w = (data, w1) \<Longrightarrow> files w1 = files w"
  using readFile_files [of filepath w] by simp

lemma writeFile_errorD: "writeFile filepath data w = (Inl e, w') \<Longrightarrow> e = TypeError \<and> w' = w"
  using writeFile_error [of filepath data w e] writeFile_error_world [of filepath data w e]
  by simp

lemma validateDoc_D:
  "validateDoc document w = (r, w1) \<Longrightarrow> files w1 = files w \<and> r \<noteq> Inl ReferenceError"
  using validateDoc_files [of document w] validateDoc_error [of document w ReferenceError]
  by auto

lemma insertMany_loop_D:
  "insertMany_loop docs data w = (r, w1) \<Longrightarrow> files w1 = files w \<and> r \<noteq> Inl ReferenceError"
  using insertMany_loop_files [of docs data w]
    insertMany_loop_error [of docs data w ReferenceError]
  by auto

text \<open>
  An operation that raises an error leaves every file as it was, and once the name has
  passed the check the error is not the one of the name check.
\<close>

lemma insertOne_fails:
  assumes "insertOne db c document w = (Inl e, w')"
  shows "files w' = files w \<and> (name_check c = None \<longrightarrow> e \<noteq> ReferenceError)"
  using assms
  by (auto simp: insertOne_def split: if_splits prod.splits sum.splits option.splits
      dest!: readFile_filesD writeFile_errorD validateDoc_D push_error filepath_of_error)

lemma insertMany_fails:
  assumes "insertMany db c docs w = (Inl e, w')"
  shows "files w' = files w \<and> (name_check c = None \<longrightarrow> e \<noteq> ReferenceError)"
  using assms
  by (auto simp: insertMany_def split: if_splits prod.splits sum.splits jsval.splits
        option.splits
      dest!: readFile_filesD writeFile_errorD insertMany_loop_D filepath_of_error)

lemma findMany_fails:
  assumes "findMany db c filterSpec w = (Inl e, w')"
  shows "files w' = files w \<and> (name_check c = None \<longrightarrow> e \<noteq> ReferenceError)"
  using assms
  by (auto simp: findMany_def split: if_splits prod.splits sum.splits option.splits
      dest!: readFile_filesD filter_data_error filepath_of_error)

lemma findOne_fails:
  assumes "findOne db c filterSpec w = (Inl e, w')"
  shows "files w' = files w \<and> (name_check c = None \<longrightarrow> e \<noteq> ReferenceError)"
  using assms
  by (auto simp: findOne_def split: if_splits prod.splits sum.splits option.splits
      dest!: readFile_filesD filter_data_error filepath_of_error)

lemma updateMany_fails:
  assumes "updateMany db c filterSpec updates w = (Inl e, w')"
  shows "files w' = files w \<and> (name_check c = None \<longrightarrow> e \<noteq> ReferenceError)"
  using assms
  by (auto simp: updateMany_def split: if_splits prod.splits sum.splits option.splits
      dest!: readFile_filesD writeFile_errorD update_error filepath_of_error)

lemma deleteMany_fails:
  assumes "deleteMany db c filterSpec w = (Inl e, w')"
  shows "files w' = files w \<and> (name_check c = None \<longrightarrow> e \<noteq> ReferenceError)"
  using assms
  by (auto simp: deleteMany_def split: if_splits prod.splits sum.splits option.splits
      dest!: readFile_filesD writeFile_errorD erase_error filepath_of_error)

lemma returning_fails: "fst (returning f r) = Inl e \<Longrightarrow> r = (Inl e, snd (returning f r))"
  by (cases r) (auto simp: returning_def split: sum.splits)

lemma run_fails:
  assumes "fst (run db c op w) = Inl e"
  shows "files (snd (run db c op w)) = files w \<and> (name_check c = None \<longrightarrow> e \<noteq> ReferenceError)"
proof (cases op)
  case (InsertOne document)
  with assms show ?thesis
    using insertOne_fails [OF returning_fails, of "\<lambda>u. Done" db c document w e] by simp
next
  case (InsertMany docs)
  with assms show ?thesis
    using insertMany_fails [OF returning_fails, of "\<lambda>u. Done" db c docs w e] by simp
next
  case (FindById ident)
  with assms show ?thesis
    using findOne_fails [OF returning_fails, of Document db c "JObj [(''_id'', ident)]" w e]
    by (simp add: findById_findOne)
next
  case (FindMany filterSpec)
  with assms show ?thesis
    using findMany_fails [OF returning_fails, of Documents db c filterSpec w e] by simp
next
  case (FindOne filterSpec)
  with assms show ?thesis
    using findOne_fails [OF returning_fails, of Document db c filterSpec w e] by simp
next
  case (UpdateById ident updates)
  with assms show ?thesis
    using updateMany_fails [OF returning_fails, of "\<lambda>u. Done" db c
        "JObj [(''_id'', ident)]" updates w e]
    by (simp add: updateById_updateMany)
next
  case (Update filterSpec updates)
  with assms show ?thesis
    using updateMany_fails [OF returning_fails, of "\<lambda>u. Done" db c filterSpec updates w e] by simp
next
  case (Delete filterSpec)
  with assms show ?thesis
    using deleteMany_fails [OF returning_fails, of "\<lambda>u. Done" db c filterSpec w e] by simp
next
  case (DeleteById ident)
  with assms show ?thesis
    using deleteMany_fails [OF returning_fails, of "\<lambda>u. Done" db c "JObj [(''_id'', ident)]" w e]
    by (simp add: deleteById_deleteMany)
qed

lemma run_name_error:
  "(fst (run db c op w) = Inl ReferenceError) = (validateAlphabetical c = Inr False)"
proof (cases "validateAlphabetical c")
  case (Inl e)
  then have "run db c op w = (Inl e, w)" by (intro run_rejects name_check_throws)
  moreover from Inl have "e = TypeError" by (rule validateAlphabetical_error)
  ultimately show ?thesis using Inl by simp
next
  case (Inr ok)
  show ?thesis
  proof (cases ok)
    case True
    with Inr have "name_check c = None" by (simp add: name_check_valid)
    with run_fails [of db c op w ReferenceError] Inr True show ?thesis by auto
  next
    case False
    with Inr have "run db c op w = (Inl ReferenceError, w)"
      by (intro run_rejects name_check_invalid) simp
    with Inr False show ?thesis by simp
  qed
qed

text \<open>
  Claim C9, as stated, fails: the name \<open>undefined\<close> is not a string, yet every operation
  accepts it; \<open>insertOne\<close> then writes the file \<open>db/undefined.json\<close>.
\<close>

theorem collection_name_undefined_counterexample:
  "validateAlphabetical JUndefined = Inr True
   \<and> fst (run db0 JUndefined (InsertOne (JObj [(''name'', JStr ''Alice'')])) world0) = Inr Done
   \<and> files (snd (run db0 JUndefined (InsertOne (JObj [(''name'', JStr ''Alice'')])) world0))
        ''db/undefined.json''
       = Some (Json (JArr [JObj [(''name'', JStr ''Alice''),
                                (''_id'', JStr ''031425364758697a'')]]))"
  by code_simp

text \<open>
  Claim C9, amended. Every public operation raises the collection-name error exactly when
  the string that the name converts to is not a non-empty string of the letters \<open>A\<close> to
  \<open>Z\<close> and \<open>a\<close> to \<open>z\<close>, and then it returns with the world as it was: no call to the file
  system was made. A name that is a string is accepted exactly when it is such a string:
  the empty name and names with a digit, an underscore, a hyphen, a dot, a space, a slash or
  a backslash are rejected. A name that is not a string is converted first:
  \<open>undefined\<close>, \<open>null\<close>, \<open>true\<close>, \<open>false\<close>, \<open>NaN\<close>, \<open>Infinity\<close> and \<open>['users']\<close>
  are accepted; a finite number, \<open>-Infinity\<close> and a plain object are rejected, and a
  plain object with an own \<open>toString\<close> makes the conversion throw a \<open>TypeError\<close>, with
  which the operation ends before any call to the file system.
\<close>

theorem collection_name_accepted:
  "(fst (run db c op w) = Inl ReferenceError) = (validateAlphabetical c = Inr False)
   \<and> (validateAlphabetical c = Inr False \<longrightarrow> run db c op w = (Inl ReferenceError, w))
   \<and> (validateAlphabetical c = Inl e \<longrightarrow> run db c op w = (Inl e, w))
   \<and> (validateAlphabetical c = Inr True)
       = (\<exists>name. ToString c = Inr (Text name) \<and> name \<noteq> [] \<and> set name \<subseteq> set letters)
   \<and> validateAlphabetical (JStr s) = Inr (s \<noteq> [] \<and> set s \<subseteq> set letters)
   \<and> validateAlphabetical (JStr []) = Inr False
   \<and> validateAlphabetical (JStr ''users1'') = Inr False
   \<and> validateAlphabetical (JStr ''my_users'') = Inr False
   \<and> validateAlphabetical (JStr ''my-users'') = Inr False
   \<and> validateAlphabetical (JStr ''users.v'') = Inr False
   \<and> validateAlphabetical (JStr ''my users'') = Inr False
   \<and> validateAlphabetical (JStr ''../users'') = Inr False
   \<and> validateAlphabetical (JStr (''a'' @ [CHR 0x5C] @ ''b'')) = Inr False
   \<and> validateAlphabetical JUndefined = Inr True
   \<and> validateAlphabetical JNull = Inr True
   \<and> validateAlphabetical (JBool True) = Inr True
   \<and> validateAlphabetical (JBool False) = Inr True
   \<and> validateAlphabetical (JNum NaN) = Inr True
   \<and> validateAlphabetical (JNum PosInf) = Inr True
   \<and> validateAlphabetical (JArr [JStr ''users'']) = Inr True
   \<and> validateAlphabetical (JNum (Fin q)) = Inr False
   \<and> validateAlphabetical (JNum NegInf) = Inr False
   \<and> validateAlphabetical (JObj kvs) =
       (if ''toString'' \<in> set (map fst kvs) then Inl TypeError else Inr False)"
proof (intro conjI impI)
  show "(fst (run db c op w) = Inl ReferenceError) = (validateAlphabetical c = Inr False)"
    by (rule run_name_error)
  show "(validateAlphabetical c = Inr True)
       = (\<exists>name. ToString c = Inr (Text name) \<and> name \<noteq> [] \<and> set name \<subseteq> set letters)"
    by (rule valid_name_letters)
  show "validateAlphabetical (JStr s) = Inr (s \<noteq> [] \<and> set s \<subseteq> set letters)"
    by (rule valid_string_letters)
next
  assume "validateAlphabetical c = Inr False"
  then show "run db c op w = (Inl ReferenceError, w)"
    by (intro run_rejects name_check_invalid)
next
  assume "validateAlphabetical c = Inl e"
  then show "run db c op w = (Inl e, w)"
    by (intro run_rejects name_check_throws)
qed (simp_all add: validateAlphabetical_def alphabetical_def is_alpha_def)

theorem collection_name_accepted_witness:
  "validateAlphabetical (JStr ''my_users'') = Inr False
   \<and> run db0 (JStr ''my_users'') (FindMany (JObj [])) world0 = (Inl ReferenceError, world0)
   \<and> validateAlphabetical (JObj [(''toString'', JNull)]) = Inl TypeError
   \<and> run db0 (JObj [(''toString'', JNull)]) (FindMany (JObj [])) world0
       = (Inl TypeError, world0)
   \<and> fst (run db0 (JStr ''users'') (FindMany (JObj [])) world0) \<noteq> Inl ReferenceError"
proof -
  have t: "validateAlphabetical (JObj [(''toString'', JNull)]) = Inl TypeError"
    by (simp add: validateAlphabetical_def)
  have d: "run db0 (JObj [(''toString'', JNull)]) (FindMany (JObj [])) world0
       = (Inl TypeError, world0)"
    using collection_name_accepted [of db0 "JObj [(''toString'', JNull)]" "FindMany (JObj [])"
        world0 TypeError, THEN conjunct2, THEN conjunct2, THEN conjunct1] t
    by simp
  have a: "validateAlphabetical (JStr ''my_users'') = Inr False"
    by (simp add: valid_string is_alpha_def)
  have b: "run db0 (JStr ''my_users'') (FindMany (JObj [])) world0 = (Inl ReferenceError, world0)"
    using collection_name_accepted [of db0 "JStr ''my_users''" "FindMany (JObj [])" world0,
        THEN conjunct2, THEN conjunct1] a
    by simp
  have c: "fst (run db0 (JStr ''users'') (FindMany (JObj [])) world0) \<noteq> Inl ReferenceError"
    using collection_name_accepted [of db0 "JStr ''users''" "FindMany (JObj [])" world0,
        THEN conjunct1] valid_users
    by simp
  from a b t d c show ?thesis by simp
qed

lemma non_object_value_iff: "non_object_value v = (\<not> plain_mapping v)"
  by (cases v) (simp_all add: non_object_value_def)

lemma non_null_object_iff: "non_null_object v = is_reference v"
  by (cases v) (simp_all add: non_null_object_def)

lemma readFile_trace:
  "trace (snd (readFile filepath w)) =
     trace w @ ExistsSync filepath # (if files w filepath = None then [] else [ReadFileSync filepath])"
  by (simp add: readFile_def split: option.splits)

lemma update_scalar: "\<not> is_reference updates \<Longrightarrow> update data criteria updates = Inl TypeError"
  by (simp add: update_def non_null_object_iff split: jsval.splits)

lemma insertMany_scalar_element:
  assumes "validateAlphabetical c = Inr True" and "d \<in> set ds" and "\<not> is_reference d"
  shows "insertMany db c (JArr ds) w = (Inl TypeError, w)"
proof -
  have "typeof d \<noteq> TObject \<or> d = JNull" using assms(3) by (cases d) simp_all
  with assms(2) have "\<not> list_all (\<lambda>document. typeof document = TObject \<and> document \<noteq> JNull) ds"
    by (auto simp: list_all_iff)
  with assms(1) show ?thesis by (simp add: insertMany_def name_check_valid)
qed

text \<open>
  Claim C4, amended. Every operation raises the collection-name error before any call to the
  file system (and a name whose conversion to a string throws raises that error there).
  \<open>insertOne\<close> raises the \<open>TypeError\<close> for a document that is not a plain
  mapping before any call to the file system, and so does \<open>insertMany\<close> when \<open>docs\<close> is not
  an array or has an element that is a primitive or \<open>null\<close>. \<open>update\<close> and \<open>updateById\<close> do
  not look at the update argument before they read: for an argument that is a primitive or
  \<open>null\<close> the \<open>TypeError\<close> comes from \<open>workflow-data\<close> after the collection file has been
  looked up and read. Whenever an operation raises an error, every file is as it was.
\<close>

theorem validation_errors:
  "(validateAlphabetical c = Inr False \<longrightarrow> run db c op w = (Inl ReferenceError, w))
   \<and> (validateAlphabetical c = Inl e' \<longrightarrow> run db c op w = (Inl e', w))
   \<and> (validateAlphabetical c = Inr True \<and> \<not> plain_mapping document \<longrightarrow>
        insertOne db c document w = (Inl TypeError, w))
   \<and> (validateAlphabetical c = Inr True \<and> \<not> isArray docs \<longrightarrow>
        insertMany db c docs w = (Inl TypeError, w))
   \<and> (validateAlphabetical c = Inr True \<and> d \<in> set ds \<and> \<not> is_reference d \<longrightarrow>
        insertMany db c (JArr ds) w = (Inl TypeError, w))
   \<and> (validateAlphabetical c = Inr True \<and> \<not> is_reference updates \<longrightarrow>
        fst (updateMany db c filterSpec updates w) = Inl TypeError
        \<and> fst (updateById db c ident updates w) = Inl TypeError
        \<and> trace (snd (updateMany db c filterSpec updates w)) =
            trace w @ ExistsSync (path_of db c) #
              (if files w (path_of db c) = None then [] else [ReadFileSync (path_of db c)])
        \<and> trace (snd (updateById db c ident updates w)) =
            trace (snd (updateMany db c filterSpec updates w)))
   \<and> (fst (run db c op w) = Inl e \<longrightarrow> files (snd (run db c op w)) = files w)"
proof (intro conjI impI)
  assume "validateAlphabetical c = Inr False"
  then show "run db c op w = (Inl ReferenceError, w)"
    by (intro run_rejects name_check_invalid)
next
  assume "validateAlphabetical c = Inl e'"
  then show "run db c op w = (Inl e', w)"
    by (intro run_rejects name_check_throws)
next
  assume "validateAlphabetical c = Inr True \<and> \<not> plain_mapping document"
  then show "insertOne db c document w = (Inl TypeError, w)"
    by (simp add: insertOne_def name_check_valid non_object_value_iff)
next
  assume "validateAlphabetical c = Inr True \<and> \<not> isArray docs"
  then show "insertMany db c docs w = (Inl TypeError, w)"
    by (cases docs) (simp_all add: insertMany_def name_check_valid)
next
  assume "validateAlphabetical c = Inr True \<and> d \<in> set ds \<and> \<not> is_reference d"
  then show "insertMany db c (JArr ds) w = (Inl TypeError, w)"
    by (intro insertMany_scalar_element [of c d ds]) simp_all
next
  assume a: "validateAlphabetical c = Inr True \<and> \<not> is_reference updates"
  then show "fst (updateMany db c filterSpec updates w) = Inl TypeError"
    by (simp add: updateMany_valid update_scalar)
  from a show "fst (updateById db c ident updates w) = Inl TypeError"
    by (simp add: updateById_updateMany updateMany_valid update_scalar)
  from a have m: "snd (updateMany db c g updates w) = snd (readFile (path_of db c) w)" for g
    by (simp add: updateMany_valid update_scalar)
  then show "trace (snd (updateMany db c filterSpec updates w)) =
            trace w @ ExistsSync (path_of db c) #
              (if files w (path_of db c) = None then [] else [ReadFileSync (path_of db c)])"
    by (simp add: readFile_trace)
  show "trace (snd (updateById db c ident updates w)) =
            trace (snd (updateMany db c filterSpec updates w))"
    by (simp add: updateById_updateMany m)
next
  assume "fst (run db c op w) = Inl e"
  then show "files (snd (run db c op w)) = files w"
    using run_fails [of db c op w e] by simp
qed

theorem validation_errors_witness:
  "validateAlphabetical (JStr ''my_users'') = Inr False
   \<and> run db0 (JStr ''my_users'') (InsertOne (JObj [])) world0 = (Inl ReferenceError, world0)
   \<and> validateAlphabetical (JObj [(''toString'', JNull)]) = Inl TypeError
   \<and> run db0 (JObj [(''toString'', JNull)]) (InsertOne (JObj [])) world0 = (Inl TypeError, world0)
   \<and> validateAlphabetical (JStr ''users'') = Inr True
   \<and> \<not> plain_mapping (JArr [])
   \<and> insertOne db0 (JStr ''users'') (JArr []) world0 = (Inl TypeError, world0)
   \<and> \<not> isArray (JStr ''x'')
   \<and> insertMany db0 (JStr ''users'') (JStr ''x'') world0 = (Inl TypeError, world0)
   \<and> \<not> is_reference JNull
   \<and> insertMany db0 (JStr ''users'') (JArr [JObj [], JNull]) world0 = (Inl TypeError, world0)
   \<and> \<not> is_reference (JNum (Fin 5))
   \<and> fst (updateById db0 (JStr ''users'') (JStr ''a'') (JNum (Fin 5)) world0) = Inl TypeError
   \<and> fst (run db0 (JStr ''users'') (Update (JObj []) (JNum (Fin 5))) world0) = Inl TypeError
   \<and> files (snd (run db0 (JStr ''users'') (Update (JObj []) (JNum (Fin 5))) world0))
       = files world0"
  using validation_errors [of "JStr ''my_users''" db0 "InsertOne (JObj [])" world0]
    validation_errors [of "JObj [(''toString'', JNull)]" db0 "InsertOne (JObj [])" world0
      TypeError]
    validation_errors [of "JStr ''users''" db0 "Update (JObj []) (JNum (Fin 5))" world0
      TypeError "JArr []" "JStr ''x''" JNull "[JObj [], JNull]" "JNum (Fin 5)" "JObj []"
      "JStr ''a''" TypeError]
    valid_users
  by (simp add: alphabetical_def is_alpha_def returning_def validateAlphabetical_def)

text \<open>
  Claim C4, as stated, fails: \<open>update\<close> with the number 5 as update argument raises its
  \<open>TypeError\<close> after it has called the file system.
\<close>

theorem update_argument_counterexample:
  "fst (updateMany db0 (JStr ''users'') (JObj []) (JNum (Fin 5)) world0) = Inl TypeError
   \<and> trace world0 = []
   \<and> trace (snd (updateMany db0 (JStr ''users'') (JObj []) (JNum (Fin 5)) world0))
       = [ExistsSync ''db/users.json'']"
  by (simp add: updateMany_valid [OF valid_users] update_def readFile_def non_null_object_def
      world0_def db0_def path_string)

section \<open>The collection store: reading\<close>

lemma every_entry_total:
  assumes "plain_mapping obj"
  shows "\<exists>b. every_entry obj entries = Inr b"
proof (induction entries)
  case Nil
  show ?case by (rule exI [of _ True]) simp
next
  case (Cons entry entries)
  from assms obtain x where x: "getProp obj (fst entry) = Inr x"
    by (cases obj) (simp_all add: getProp_JObj del: getProp.simps)
  from Cons x show ?case by auto
qed

lemma matches_total:
  assumes "plain_mapping obj" and "is_reference criteria"
  shows "matches obj criteria = Inr (matching obj criteria)"
proof -
  from assms(2) obtain keys where "Object_keys criteria = Inr keys"
    by (cases criteria) simp_all
  moreover obtain b where "every_entry obj (own_entries criteria) = Inr b"
    using every_entry_total [OF assms(1)] by blast
  ultimately show ?thesis by (simp add: matches_def matching_def)
qed

lemma is_document_plain: "is_document d \<Longrightarrow> plain_mapping d"
  by (cases d) simp_all

lemma filter_loop_documents:
  assumes "list_all is_document objs" and "is_reference criteria"
  shows "filter_loop objs criteria = Inr (filter (\<lambda>d. matching d criteria) objs)"
  using assms(1)
  by (induction objs) (simp_all add: matches_total [OF is_document_plain assms(2)])

lemma first_filter:
  "first (filter P xs) = (case find P xs of None \<Rightarrow> JUndefined | Some d \<Rightarrow> d)"
  by (induction xs) (simp_all add: first_def)

lemma includes_selects:
  "array_includes vs (Value x) = (x \<in> set (filter (\<lambda>v. \<not> is_reference v) vs))"
  by (auto simp: array_includes_def list_ex_iff)

lemma matching_id:
  assumes "is_document d"
  shows "matching d (JObj [(''_id'', ident)]) = selects ident (id_of d)"
proof -
  from assms obtain kvs where d: "d = JObj kvs" and j: "is_json (JObj kvs)"
    by (cases d) simp_all
  have nn: "field kvs ''_id'' \<noteq> JNum NaN" using j by (rule field_not_NaN)
  have "matches d (JObj [(''_id'', ident)])
        = Inr (case ident of
                 JArr vs \<Rightarrow> array_includes vs (Value (field kvs ''_id''))
               | _ \<Rightarrow> strict_eq (Value (field kvs ''_id'')) ident)"
    by (cases ident) (simp_all add: matches_def d getProp_JObj read_id del: getProp.simps)
  moreover have "(case ident of
                 JArr vs \<Rightarrow> array_includes vs (Value (field kvs ''_id''))
               | _ \<Rightarrow> strict_eq (Value (field kvs ''_id'')) ident)
        = selects ident (field kvs ''_id'')"
    using nn by (cases ident) (auto simp: selects_def includes_selects)
  ultimately show ?thesis by (simp add: matching_def d id_of_JObj)
qed

lemma filter_cong_set: "(\<And>x. x \<in> set xs \<Longrightarrow> P x = Q x) \<Longrightarrow> filter P xs = filter Q xs"
  by (rule filter_cong) simp_all

lemma filter_by_id:
  assumes "list_all is_document docs"
  shows "filter (\<lambda>d. matching d (JObj [(''_id'', ident)])) docs
         = filter (\<lambda>d. selects ident (id_of d)) docs"
  using assms by (intro filter_cong_set matching_id) (simp add: list_all_iff)

lemma holds_two: "holds world_two (path_of db0 (JStr ''two'')) two_docs"
  by (simp add: holds_def world_two_def world0_def db0_def path_string readFile_def
      JSON_parse_def two_docs_def)

text \<open>
  Claim C8, as stated, fails for an id that is an array: \<open>findById(c, ['a'])\<close> returns the
  stored document whose \<open>_id\<close> is the string \<open>a\<close>, which is not the id that was asked for.
\<close>

theorem findById_array_id_counterexample:
  "fst (findById db0 (JStr ''two'') (JArr [JStr ''a'']) world_two)
     = Inr (JObj [(''_id'', JStr ''a''), (''n'', JNum (Fin 1))])
   \<and> id_of (JObj [(''_id'', JStr ''a''), (''n'', JNum (Fin 1))]) = JStr ''a''
   \<and> (JStr ''a'' = JArr [JStr ''a'']) = False"
  by code_simp

text \<open>
  Claim C8, amended. \<open>findById(c, i)\<close> is \<open>findOne(c, {_id: i})\<close>, result and effects
  alike, for every name and every id. On a collection of documents it returns the first
  stored document that \<open>i\<close> selects, and \<open>undefined\<close>, not an error, when there is none: a
  scalar \<open>i\<close> selects the documents whose \<open>_id\<close> equals \<open>i\<close>, an array \<open>i\<close> selects the
  documents whose \<open>_id\<close> is one of its scalar elements, and an object \<open>i\<close> selects none.
\<close>

theorem findById_is_findOne:
  "findById db c ident w = findOne db c (JObj [(''_id'', ident)]) w
   \<and> (validateAlphabetical c = Inr True \<and> holds w (path_of db c) docs \<longrightarrow>
        fst (findById db c ident w) =
          Inr (case find (\<lambda>d. selects ident (id_of d)) docs of
                 None \<Rightarrow> JUndefined
               | Some d \<Rightarrow> d))"
proof (intro conjI impI)
  show "findById db c ident w = findOne db c (JObj [(''_id'', ident)]) w"
    by (simp add: findById_def findOne_def)
next
  assume a: "validateAlphabetical c = Inr True \<and> holds w (path_of db c) docs"
  then have docs: "list_all is_document docs"
    and rd: "fst (readFile (path_of db c) w) = JArr docs"
    by (simp_all add: holds_def)
  have "filter_data (JArr docs) (JObj [(''_id'', ident)])
        = Inr (filter (\<lambda>d. matching d (JObj [(''_id'', ident)])) docs)"
    using docs by (simp add: filter_data_def non_null_object_def filter_loop_documents)
  then have "filter_data (JArr docs) (JObj [(''_id'', ident)])
        = Inr (filter (\<lambda>d. selects ident (id_of d)) docs)"
    by (simp add: filter_by_id [OF docs])
  with a rd show "fst (findById db c ident w) =
          Inr (case find (\<lambda>d. selects ident (id_of d)) docs of
                 None \<Rightarrow> JUndefined
               | Some d \<Rightarrow> d)"
    by (simp add: findById_findOne findOne_valid first_filter)
qed

theorem findById_is_findOne_witness:
  "validateAlphabetical (JStr ''two'') = Inr True
   \<and> holds world_two (path_of db0 (JStr ''two'')) two_docs
   \<and> fst (findById db0 (JStr ''two'') (JStr ''b'') world_two)
       = Inr (JObj [(''_id'', JStr ''b''), (''n'', JNum (Fin 2))])
   \<and> fst (findById db0 (JStr ''two'') (JStr ''zz'') world_two) = Inr JUndefined
   \<and> fst (findById db0 (JStr ''two'') (JArr [JStr ''zz'', JStr ''b'']) world_two)
       = Inr (JObj [(''_id'', JStr ''b''), (''n'', JNum (Fin 2))])
   \<and> fst (findById db0 (JStr ''two'') (JObj [(''_id'', JStr ''b'')]) world_two)
       = Inr JUndefined"
  using findById_is_findOne [THEN conjunct2, of "JStr ''two''" world_two db0 two_docs "JStr ''b''"]
    findById_is_findOne [THEN conjunct2, of "JStr ''two''" world_two db0 two_docs "JStr ''zz''"]
    findById_is_findOne [THEN conjunct2, of "JStr ''two''" world_two db0 two_docs
      "JArr [JStr ''zz'', JStr ''b'']"]
    findById_is_findOne [THEN conjunct2, of "JStr ''two''" world_two db0 two_docs
      "JObj [(''_id'', JStr ''b'')]"]
    valid_two holds_two
  by (simp add: two_docs_def id_of_JObj field_def selects_def)

section \<open>The collection store: deleting\<close>

lemma erase_loop_documents:
  assumes "list_all is_document objs" and "is_reference criteria" and "n \<le> length objs"
  shows "erase_loop objs n criteria
         = Inr (filter (\<lambda>d. \<not> matching d criteria) (take n objs) @ drop n objs)"
  using assms(1,3)
proof (induction n arbitrary: objs)
  case 0
  then show ?case by simp
next
  case (Suc i)
  then have i: "i < length objs" by simp
  with Suc.prems have doc: "is_document (objs ! i)" by (simp add: list_all_length)
  have m: "matches (objs ! i) criteria = Inr (matching (objs ! i) criteria)"
    using doc assms(2) by (intro matches_total is_document_plain)
  have tk: "take (Suc i) objs = take i objs @ [objs ! i]"
    using i by (rule take_Suc_conv_app_nth)
  show ?case
  proof (cases "matching (objs ! i) criteria")
    case True
    have docs': "list_all is_document (splice1 objs i)"
      using Suc.prems(1) by (auto simp: splice1_def list_all_iff dest: in_set_takeD in_set_dropD)
    have len: "i \<le> length (splice1 objs i)" using i by (simp add: splice1_def)
    have "erase_loop (splice1 objs i) i criteria
          = Inr (filter (\<lambda>d. \<not> matching d criteria) (take i (splice1 objs i))
                 @ drop i (splice1 objs i))"
      using docs' len by (rule Suc.IH)
    moreover have "take i (splice1 objs i) = take i objs" using i by (simp add: splice1_def)
    moreover have "drop i (splice1 objs i) = drop (Suc i) objs"
      using i by (simp add: splice1_def)
    ultimately show ?thesis using i m True tk by simp
  next
    case False
    have "erase_loop objs i criteria
          = Inr (filter (\<lambda>d. \<not> matching d criteria) (take i objs) @ drop i objs)"
      using Suc.prems(1) i by (intro Suc.IH) simp_all
    moreover have "drop i objs = objs ! i # drop (Suc i) objs"
      using i by (rule Cons_nth_drop_Suc [symmetric])
    ultimately show ?thesis using i m False tk by simp
  qed
qed

lemma erase_documents:
  assumes "list_all is_document objs" and "is_reference criteria"
  shows "erase (JArr objs) criteria = Inr (JArr (filter (\<lambda>d. \<not> matching d criteria) objs))"
  using erase_loop_documents [OF assms, of "length objs"] assms(2)
  by (simp add: erase_def non_null_object_iff)

lemma is_document_json: "is_document d \<Longrightarrow> is_json d"
  by (cases d) simp_all

lemma documents_json: "list_all is_document docs \<Longrightarrow> is_json (JArr docs)"
  by (simp add: list_all_iff is_document_json)

lemma holds_after_write:
  assumes "list_all is_document docs"
  shows "fst (writeFile filepath (JArr docs) w) = Inr ()
         \<and> holds (snd (writeFile filepath (JArr docs) w)) filepath docs
         \<and> stored (snd (writeFile filepath (JArr docs) w)) filepath = docs
         \<and> (\<forall>p. p \<noteq> filepath \<longrightarrow> files (snd (writeFile filepath (JArr docs) w)) p = files w p)"
  using assms documents_json [OF assms]
  by (simp add: writeFile_json holds_def stored_def readFile_def JSON_parse_def)

lemma holdsD:
  assumes "holds w filepath docs"
  obtains w1 where "readFile filepath w = (JArr docs, w1)" and "files w1 = files w"
    and "list_all is_document docs"
proof -
  obtain data w1 where r: "readFile filepath w = (data, w1)" by (cases "readFile filepath w")
  with assms have "data = JArr docs" by (simp add: holds_def)
  moreover from r have "files w1 = files w" by (rule readFile_filesD)
  ultimately show ?thesis using that r assms by (simp add: holds_def)
qed

lemma deleteMany_documents:
  assumes "validateAlphabetical c = Inr True" and "holds w (path_of db c) docs" and "is_reference f"
  shows "fst (deleteMany db c f w) = Inr ()
         \<and> holds (snd (deleteMany db c f w)) (path_of db c)
              (filter (\<lambda>d. \<not> matching d f) docs)
         \<and> (\<forall>p. p \<noteq> path_of db c \<longrightarrow> files (snd (deleteMany db c f w)) p = files w p)"
proof -
  from assms(2) obtain w1 where r: "readFile (path_of db c) w = (JArr docs, w1)"
    and f1: "files w1 = files w" and docs: "list_all is_document docs"
    by (rule holdsD)
  have kept: "list_all is_document (filter (\<lambda>d. \<not> matching d f) docs)"
    using docs by (simp add: list_all_iff)
  have "deleteMany db c f w
        = writeFile (path_of db c) (JArr (filter (\<lambda>d. \<not> matching d f) docs)) w1"
    using assms(1,3) r docs by (simp add: deleteMany_valid erase_documents)
  then show ?thesis
    using holds_after_write [OF kept, of "path_of db c" w1] f1 by simp
qed

text \<open>
  Claim C6. On every collection of documents, \<open>delete(name, f)\<close> succeeds and leaves in the
  file exactly the documents that do not match \<open>f\<close>, in their previous order. Scenario D:
  the collection \<open>fam\<close> is empty, the five family documents are inserted, one of them (the
  fourth) matches \<open>{name: "Liam"}\<close>; after the deletion the other four are stored, in
  order, and \<open>findMany("fam", {})\<close> has length 4.
\<close>

theorem delete_removes_matching:
  "(validateAlphabetical c = Inr True \<and> holds w (path_of db c) docs \<longrightarrow>
      fst (deleteMany db c (JObj f) w) = Inr ()
      \<and> stored (snd (deleteMany db c (JObj f) w)) (path_of db c)
          = filter (\<lambda>d. \<not> matching d (JObj f)) docs)
   \<and> stored world0 ''db/fam.json'' = []
   \<and> fst (insertMany db0 (JStr ''fam'') (JArr family) world0) = Inr ()
   \<and> stored world_family ''db/fam.json'' =
       map2 (\<lambda>d s. putProp d ''_id'' (JStr s)) family
         [''031425364758697a'', ''8b9cadbecfe0f102'', ''132435465768798a'',
          ''9bacbdcedff00112'', ''233445566778899a'']
   \<and> filter (\<lambda>d. matching d (JObj [(''name'', JStr ''Liam'')]))
        (stored world_family ''db/fam.json'') = [stored world_family ''db/fam.json'' ! 3]
   \<and> fst (deleteMany db0 (JStr ''fam'') (JObj [(''name'', JStr ''Liam'')]) world_family) = Inr ()
   \<and> stored world_without_Liam ''db/fam.json'' =
       map2 (\<lambda>d s. putProp d ''_id'' (JStr s))
         [family ! 0, family ! 1, family ! 2, family ! 4]
         [''031425364758697a'', ''8b9cadbecfe0f102'', ''132435465768798a'',
          ''233445566778899a'']
   \<and> map_sum id length (fst (findMany db0 (JStr ''fam'') (JObj []) world_without_Liam)) = Inr 4"
proof (intro conjI impI)
  assume a: "validateAlphabetical c = Inr True \<and> holds w (path_of db c) docs"
  then have kept: "list_all is_document (filter (\<lambda>d. \<not> matching d (JObj f)) docs)"
    by (simp add: holds_def list_all_iff)
  from a have d: "fst (deleteMany db c (JObj f) w) = Inr ()
         \<and> holds (snd (deleteMany db c (JObj f) w)) (path_of db c)
              (filter (\<lambda>d. \<not> matching d (JObj f)) docs)"
    using deleteMany_documents [of c w db docs "JObj f"] by simp
  then show "fst (deleteMany db c (JObj f) w) = Inr ()" by simp
  from d show "stored (snd (deleteMany db c (JObj f) w)) (path_of db c)
          = filter (\<lambda>d. \<not> matching d (JObj f)) docs"
    by (simp add: holds_def stored_def)
next
  show "stored world0 ''db/fam.json'' = []" by code_simp
  show "fst (insertMany db0 (JStr ''fam'') (JArr family) world0) = Inr ()" by code_simp
  show "stored world_family ''db/fam.json'' =
       map2 (\<lambda>d s. putProp d ''_id'' (JStr s)) family
         [''031425364758697a'', ''8b9cadbecfe0f102'', ''132435465768798a'',
          ''9bacbdcedff00112'', ''233445566778899a'']"
    by code_simp
  show "filter (\<lambda>d. matching d (JObj [(''name'', JStr ''Liam'')]))
        (stored world_family ''db/fam.json'') = [stored world_family ''db/fam.json'' ! 3]"
    by code_simp
  show "fst (deleteMany db0 (JStr ''fam'') (JObj [(''name'', JStr ''Liam'')]) world_family) = Inr ()"
    by code_simp
  show "stored world_without_Liam ''db/fam.json'' =
       map2 (\<lambda>d s. putProp d ''_id'' (JStr s))
         [family ! 0, family ! 1, family ! 2, family ! 4]
         [''031425364758697a'', ''8b9cadbecfe0f102'', ''132435465768798a'',
          ''233445566778899a'']"
    by code_simp
  show "map_sum id length (fst (findMany db0 (JStr ''fam'') (JObj []) world_without_Liam)) = Inr 4"
    by code_simp
qed

lemma holds_family:
  "holds world_family (path_of db0 (JStr ''fam'')) (stored world_family ''db/fam.json'')"
  by code_simp

theorem delete_removes_matching_witness:
  "validateAlphabetical (JStr ''fam'') = Inr True
   \<and> holds world_family (path_of db0 (JStr ''fam'')) (stored world_family ''db/fam.json'')
   \<and> fst (deleteMany db0 (JStr ''fam'') (JObj [(''relation'', JStr ''son'')]) world_family) = Inr ()
   \<and> stored (snd (deleteMany db0 (JStr ''fam'') (JObj [(''relation'', JStr ''son'')]) world_family))
        (path_of db0 (JStr ''fam''))
       = filter (\<lambda>d. \<not> matching d (JObj [(''relation'', JStr ''son'')]))
           (stored world_family ''db/fam.json'')"
  using delete_removes_matching [THEN conjunct1, of "JStr ''fam''" world_family db0
      "stored world_family ''db/fam.json''" "[(''relation'', JStr ''son'')]"]
    valid_fam holds_family
  by simp

section \<open>The collection store: updating\<close>

lemma merged_JObj:
  "merged (JObj d) u = JObj (fold (\<lambda>kv acc. assignObj acc (fst kv) (snd kv)) u d)"
  by (simp add: merged_def)

lemma Object_assign_merged: "Object_assign (JObj d) (JObj u) = Inr (merged (JObj d) u)"
  by (simp add: merged_def)

lemma map_of_assignObj:
  "map_of (assignObj d k v) k' =
     (if k = ''__proto__'' \<and> map_of d k = None then map_of d k'
      else if k' = k then Some v else map_of d k')"
  by (auto simp: assignObj_def map_of_setProp)

lemma map_of_fold_assignObj:
  "distinct (map fst u) \<Longrightarrow>
   map_of (fold (\<lambda>kv acc. assignObj acc (fst kv) (snd kv)) u d) k
     = (case map_of u k of
          None \<Rightarrow> map_of d k
        | Some v \<Rightarrow> if k = ''__proto__'' \<and> map_of d k = None then None else Some v)"
proof (induction u arbitrary: d)
  case Nil
  then show ?case by simp
next
  case (Cons kv u)
  then have nk: "map_of u (fst kv) = None"
    by (simp add: map_of_eq_None_iff)
  let ?d = "assignObj d (fst kv) (snd kv)"
  have "map_of (fold (\<lambda>kv acc. assignObj acc (fst kv) (snd kv)) u ?d) k
        = (case map_of u k of
             None \<Rightarrow> map_of ?d k
           | Some v \<Rightarrow> if k = ''__proto__'' \<and> map_of ?d k = None then None else Some v)"
    using Cons.prems by (intro Cons.IH) simp
  then show ?case
    using nk by (cases kv) (auto simp: map_of_assignObj split: option.splits)
qed

lemma setProp_json:
  assumes "is_json (JObj d)" and "is_json v"
  shows "is_json (JObj (setProp d k v))"
proof -
  have "distinct (map fst (setProp d k v))"
    using assms(1) by (simp add: keys_setProp)
  moreover have "list_all (\<lambda>kv. is_json (snd kv)) (setProp d k v)"
    using assms by (induction d k v rule: setProp.induct) auto
  ultimately show ?thesis by simp
qed

lemma assignObj_json:
  assumes "is_json (JObj d)" and "is_json v"
  shows "is_json (JObj (assignObj d k v))"
  using assms setProp_json [OF assms] by (simp add: assignObj_def)

lemma fold_assignObj_json:
  assumes "is_json (JObj d)" and "list_all (\<lambda>kv. is_json (snd kv)) u"
  shows "is_json (JObj (fold (\<lambda>kv acc. assignObj acc (fst kv) (snd kv)) u d))"
  using assms
proof (induction u arbitrary: d)
  case Nil
  then show ?case by simp
next
  case (Cons kv u)
  have "is_json (JObj (assignObj d (fst kv) (snd kv)))"
    using Cons.prems by (intro assignObj_json) simp_all
  then have "is_json (JObj (fold (\<lambda>kv acc. assignObj acc (fst kv) (snd kv)) u
                (assignObj d (fst kv) (snd kv))))"
    using Cons.prems by (intro Cons.IH) simp_all
  then show ?case by simp
qed

lemma merged_document:
  assumes "is_document d" and "is_json (JObj u)"
  shows "is_document (merged d u)"
proof -
  from assms(1) obtain kvs where d: "d = JObj kvs" and j: "is_json (JObj kvs)"
    by (cases d) simp_all
  have "is_json (JObj (fold (\<lambda>kv acc. assignObj acc (fst kv) (snd kv)) u kvs))"
    using j assms(2) by (intro fold_assignObj_json) simp_all
  then show ?thesis by (simp add: d merged_JObj)
qed

lemma merged_fields:
  assumes "is_document d" and "is_json (JObj u)"
  shows "fields (merged d u) k =
           (case map_of u k of
              None \<Rightarrow> fields d k
            | Some v \<Rightarrow> if k = ''__proto__'' \<and> fields d k = None then None else Some v)"
proof -
  from assms(1) obtain kvs where d: "d = JObj kvs" by (cases d) simp_all
  from assms(2) have "distinct (map fst u)" by simp
  then show ?thesis
    by (simp add: d merged_JObj map_of_fold_assignObj split: option.splits)
qed

lemma merged_id:
  assumes "is_document d" and "is_json (JObj u)" and "map_of u ''_id'' = Some v"
  shows "id_of (merged d u) = v"
proof -
  from assms(1) obtain kvs where d: "d = JObj kvs" by (cases d) simp_all
  from assms(2) have "distinct (map fst u)" by simp
  then have "map_of (fold (\<lambda>kv acc. assignObj acc (fst kv) (snd kv)) u kvs) ''_id'' = Some v"
    using assms(3) by (simp add: map_of_fold_assignObj)
  then show ?thesis by (simp add: d merged_JObj id_of_JObj field_def)
qed

lemma update_loop_documents:
  assumes "list_all is_document objs" and "is_reference criteria"
  shows "update_loop objs criteria (JObj u)
         = Inr (map (\<lambda>d. if matching d criteria then merged d u else d) objs)"
  using assms(1)
proof (induction objs)
  case Nil
  then show ?case by simp
next
  case (Cons d objs)
  then obtain kvs where d: "d = JObj kvs" by (cases d) simp_all
  have m: "matches d criteria = Inr (matching d criteria)"
    using assms(2) by (intro matches_total) (simp_all add: d)
  have ih: "update_loop objs criteria (JObj u)
         = Inr (map (\<lambda>d. if matching d criteria then merged d u else d) objs)"
    using Cons by simp
  show ?case
    by (simp only: update_loop.simps m ih sum.case) (simp add: d merged_def)
qed

lemma update_documents:
  assumes "list_all is_document objs" and "is_reference criteria"
  shows "update (JArr objs) criteria (JObj u)
         = Inr (JArr (map (\<lambda>d. if matching d criteria then merged d u else d) objs))"
  using assms(2) by (simp add: update_def non_null_object_iff update_loop_documents [OF assms])

lemma updated_documents:
  assumes "list_all is_document objs" and "is_json (JObj u)"
  shows "list_all is_document (map (\<lambda>d. if matching d criteria then merged d u else d) objs)"
  using assms by (auto simp: list_all_iff intro: merged_document)

lemma updateMany_documents:
  assumes "validateAlphabetical c = Inr True" and "holds w (path_of db c) docs"
    and "is_reference f" and "is_json (JObj u)"
  shows "fst (updateMany db c f (JObj u) w) = Inr ()
         \<and> holds (snd (updateMany db c f (JObj u) w)) (path_of db c)
              (map (\<lambda>d. if matching d f then merged d u else d) docs)
         \<and> stored (snd (updateMany db c f (JObj u) w)) (path_of db c)
              = map (\<lambda>d. if matching d f then merged d u else d) docs"
proof -
  from assms(2) obtain w1 where r: "readFile (path_of db c) w = (JArr docs, w1)"
    and docs: "list_all is_document docs"
    by (rule holdsD)
  have "updateMany db c f (JObj u) w
        = writeFile (path_of db c)
            (JArr (map (\<lambda>d. if matching d f then merged d u else d) docs)) w1"
    using assms(1,3) r docs by (simp add: updateMany_valid update_documents)
  then show ?thesis
    using holds_after_write [OF updated_documents [OF docs assms(4)],
        where filepath = "path_of db c" and w = w1 and criteria1 = f]
    by simp
qed

lemma selects_scalar: "\<not> is_reference ident \<Longrightarrow> selects ident x = (x = ident)"
  by (cases ident) (simp_all add: selects_def)

text \<open>
  Claim C5, as stated, fails twice. With the array \<open>['a', 'b']\<close> as id, \<open>updateById\<close>
  merges the update into both documents of a collection whose \<open>_id\<close> values are distinct,
  and neither \<open>_id\<close> equals the id. With the update parsed from
  \<open>{"__proto__": {"z": 1}, "n": 9}\<close>, the field \<open>__proto__\<close>, new in the update, is not
  added to the document.
\<close>

theorem updateById_merge_counterexample:
  "distinct (map id_of (stored world_two ''db/two.json''))
   \<and> stored (snd (updateById db0 (JStr ''two'') (JArr [JStr ''a'', JStr ''b''])
                    (JObj [(''n'', JNum (Fin 0))]) world_two)) ''db/two.json''
       = [JObj [(''_id'', JStr ''a''), (''n'', JNum (Fin 0))],
          JObj [(''_id'', JStr ''b''), (''n'', JNum (Fin 0))]]
   \<and> is_json proto_update
   \<and> fields proto_update ''__proto__'' = Some (JObj [(''z'', JNum (Fin 1))])
   \<and> stored (snd (updateById db0 (JStr ''two'') (JStr ''a'') proto_update world_two))
        ''db/two.json''
       = [JObj [(''_id'', JStr ''a''), (''n'', JNum (Fin 9))],
          JObj [(''_id'', JStr ''b''), (''n'', JNum (Fin 2))]]"
  by code_simp

text \<open>
  Claim C5, amended. On a collection of documents, \<open>updateById\<close> with an update \<open>u\<close> of
  JSON values succeeds; the stored collection keeps its length and order; every document
  that the id selects (its \<open>_id\<close> equals a scalar id, or is one of the scalar elements of
  an array id) has, at every key, the value of \<open>u\<close> when \<open>u\<close> names the key and its previous
  field otherwise, except that the key \<open>__proto__\<close> is given to a document only when the
  document has that field already; every other document is unchanged; and when the \<open>_id\<close>
  values are distinct and the id is a scalar, at most one document is selected.
\<close>

theorem updateById_merges:
  "validateAlphabetical c = Inr True \<and> holds w (path_of db c) docs \<and> is_json (JObj u) \<longrightarrow>
     fst (updateById db c ident (JObj u) w) = Inr ()
     \<and> length (stored (snd (updateById db c ident (JObj u) w)) (path_of db c)) = length docs
     \<and> (\<forall>i < length docs.
          (selects ident (id_of (docs ! i)) \<longrightarrow>
             (\<forall>k. fields (stored (snd (updateById db c ident (JObj u) w)) (path_of db c) ! i) k
                   = (case map_of u k of
                        None \<Rightarrow> fields (docs ! i) k
                      | Some v \<Rightarrow>
                          if k = ''__proto__'' \<and> fields (docs ! i) k = None then None
                          else Some v)))
          \<and> (\<not> selects ident (id_of (docs ! i)) \<longrightarrow>
             stored (snd (updateById db c ident (JObj u) w)) (path_of db c) ! i = docs ! i))
     \<and> (distinct (map id_of docs) \<and> \<not> is_reference ident \<longrightarrow>
          (\<forall>i < length docs. \<forall>j < length docs.
             selects ident (id_of (docs ! i)) \<and> selects ident (id_of (docs ! j)) \<longrightarrow> i = j))"
proof (intro impI)
  assume a: "validateAlphabetical c = Inr True \<and> holds w (path_of db c) docs
     \<and> is_json (JObj u)"
  then have docs: "list_all is_document docs" by (simp add: holds_def)
  let ?st = "stored (snd (updateById db c ident (JObj u) w)) (path_of db c)"
  have res: "fst (updateById db c ident (JObj u) w) = Inr ()"
    and st: "?st = map (\<lambda>d. if matching d (JObj [(''_id'', ident)]) then merged d u else d) docs"
    using a updateMany_documents [of c w db docs "JObj [(''_id'', ident)]" u]
    by (simp_all add: updateById_updateMany)
  have each: "(selects ident (id_of (docs ! i)) \<longrightarrow>
             (\<forall>k. fields (?st ! i) k
                   = (case map_of u k of
                        None \<Rightarrow> fields (docs ! i) k
                      | Some v \<Rightarrow>
                          if k = ''__proto__'' \<and> fields (docs ! i) k = None then None
                          else Some v)))
          \<and> (\<not> selects ident (id_of (docs ! i)) \<longrightarrow> ?st ! i = docs ! i)"
    if i: "i < length docs" for i
  proof -
    from i docs have d: "is_document (docs ! i)" by (simp add: list_all_length)
    have m: "matching (docs ! i) (JObj [(''_id'', ident)]) = selects ident (id_of (docs ! i))"
      using d by (rule matching_id)
    show ?thesis
      using i m a merged_fields [OF d, of u] by (simp add: st)
  qed
  have one: "i = j" if "distinct (map id_of docs) \<and> \<not> is_reference ident"
    and "i < length docs" and "j < length docs"
    and "selects ident (id_of (docs ! i)) \<and> selects ident (id_of (docs ! j))" for i j
  proof -
    from that have "map id_of docs ! i = map id_of docs ! j" by (simp add: selects_scalar)
    moreover from that have "distinct (map id_of docs)" by simp
    moreover from that have "i < length (map id_of docs)" "j < length (map id_of docs)" by simp_all
    ultimately show ?thesis by (simp only: nth_eq_iff_index_eq)
  qed
  show "fst (updateById db c ident (JObj u) w) = Inr ()
     \<and> length ?st = length docs
     \<and> (\<forall>i < length docs.
          (selects ident (id_of (docs ! i)) \<longrightarrow>
             (\<forall>k. fields (?st ! i) k
                   = (case map_of u k of
                        None \<Rightarrow> fields (docs ! i) k
                      | Some v \<Rightarrow>
                          if k = ''__proto__'' \<and> fields (docs ! i) k = None then None
                          else Some v)))
          \<and> (\<not> selects ident (id_of (docs ! i)) \<longrightarrow> ?st ! i = docs ! i))
     \<and> (distinct (map id_of docs) \<and> \<not> is_reference ident \<longrightarrow>
          (\<forall>i < length docs. \<forall>j < length docs.
             selects ident (id_of (docs ! i)) \<and> selects ident (id_of (docs ! j)) \<longrightarrow> i = j))"
  proof (intro conjI)
    show "fst (updateById db c ident (JObj u) w) = Inr ()" by (rule res)
    show "length ?st = length docs" by (simp add: st)
    show "\<forall>i < length docs.
          (selects ident (id_of (docs ! i)) \<longrightarrow>
             (\<forall>k. fields (?st ! i) k
                   = (case map_of u k of
                        None \<Rightarrow> fields (docs ! i) k
                      | Some v \<Rightarrow>
                          if k = ''__proto__'' \<and> fields (docs ! i) k = None then None
                          else Some v)))
          \<and> (\<not> selects ident (id_of (docs ! i)) \<longrightarrow> ?st ! i = docs ! i)"
      using each by blast
    show "distinct (map id_of docs) \<and> \<not> is_reference ident \<longrightarrow>
          (\<forall>i < length docs. \<forall>j < length docs.
             selects ident (id_of (docs ! i)) \<and> selects ident (id_of (docs ! j)) \<longrightarrow> i = j)"
      using one by blast
  qed
qed

lemma distinct_two: "distinct (map id_of two_docs)"
  by code_simp

theorem updateById_merges_witness:
  "validateAlphabetical (JStr ''two'') = Inr True
   \<and> holds world_two (path_of db0 (JStr ''two'')) two_docs
   \<and> is_json (JObj [(''n'', JNum (Fin 7)), (''tag'', JStr ''new'')])
   \<and> distinct (map id_of two_docs) \<and> \<not> is_reference (JStr ''b'')
   \<and> selects (JStr ''b'') (id_of (two_docs ! 1))
   \<and> fst (updateById db0 (JStr ''two'') (JStr ''b'')
            (JObj [(''n'', JNum (Fin 7)), (''tag'', JStr ''new'')]) world_two) = Inr ()
   \<and> length (stored (snd (updateById db0 (JStr ''two'') (JStr ''b'')
            (JObj [(''n'', JNum (Fin 7)), (''tag'', JStr ''new'')]) world_two))
          (path_of db0 (JStr ''two''))) = 2
   \<and> fields (stored (snd (updateById db0 (JStr ''two'') (JStr ''b'')
            (JObj [(''n'', JNum (Fin 7)), (''tag'', JStr ''new'')]) world_two))
          (path_of db0 (JStr ''two'')) ! 1) ''tag'' = Some (JStr ''new'')
   \<and> stored (snd (updateById db0 (JStr ''two'') (JStr ''b'')
            (JObj [(''n'', JNum (Fin 7)), (''tag'', JStr ''new'')]) world_two))
          (path_of db0 (JStr ''two'')) ! 0 = two_docs ! 0"
proof -
  have s1: "selects (JStr ''b'') (id_of (two_docs ! 1))"
    and s0: "\<not> selects (JStr ''b'') (id_of (two_docs ! 0))"
    by (simp_all add: two_docs_def id_of_JObj field_def selects_def)
  have len: "length two_docs = 2" by (simp add: two_docs_def)
  have j: "is_json (JObj [(''n'', JNum (Fin 7)), (''tag'', JStr ''new'')])" by simp
  note t = updateById_merges [of "JStr ''two''" world_two db0 two_docs
      "[(''n'', JNum (Fin 7)), (''tag'', JStr ''new'')]" "JStr ''b''", rule_format,
      OF conjI [OF valid_two conjI [OF holds_two j]]]
  from t have r: "fst (updateById db0 (JStr ''two'') (JStr ''b'')
            (JObj [(''n'', JNum (Fin 7)), (''tag'', JStr ''new'')]) world_two) = Inr ()"
    by simp
  from t len have l: "length (stored (snd (updateById db0 (JStr ''two'') (JStr ''b'')
            (JObj [(''n'', JNum (Fin 7)), (''tag'', JStr ''new'')]) world_two))
          (path_of db0 (JStr ''two''))) = 2"
    by simp
  from t have "\<forall>i < length two_docs.
          (selects (JStr ''b'') (id_of (two_docs ! i)) \<longrightarrow>
             (\<forall>k. fields (stored (snd (updateById db0 (JStr ''two'') (JStr ''b'')
                      (JObj [(''n'', JNum (Fin 7)), (''tag'', JStr ''new'')]) world_two))
                    (path_of db0 (JStr ''two'')) ! i) k
                   = (case map_of [(''n'', JNum (Fin 7)), (''tag'', JStr ''new'')] k of
                        None \<Rightarrow> fields (two_docs ! i) k
                      | Some v \<Rightarrow>
                          if k = ''__proto__'' \<and> fields (two_docs ! i) k = None then None
                          else Some v)))
          \<and> (\<not> selects (JStr ''b'') (id_of (two_docs ! i)) \<longrightarrow>
             stored (snd (updateById db0 (JStr ''two'') (JStr ''b'')
                      (JObj [(''n'', JNum (Fin 7)), (''tag'', JStr ''new'')]) world_two))
                    (path_of db0 (JStr ''two'')) ! i = two_docs ! i)"
    by blast
  then have e1: "fields (stored (snd (updateById db0 (JStr ''two'') (JStr ''b'')
            (JObj [(''n'', JNum (Fin 7)), (''tag'', JStr ''new'')]) world_two))
          (path_of db0 (JStr ''two'')) ! 1) ''tag'' = Some (JStr ''new'')"
    and e0: "stored (snd (updateById db0 (JStr ''two'') (JStr ''b'')
            (JObj [(''n'', JNum (Fin 7)), (''tag'', JStr ''new'')]) world_two))
          (path_of db0 (JStr ''two'')) ! 0 = two_docs ! 0"
    using s1 s0 len by auto
  from valid_two holds_two j distinct_two s1 r l e1 e0 show ?thesis by simp
qed

text \<open>
  Claim C10. When the update \<open>u\<close> names \<open>_id\<close>, \<open>update\<close> and \<open>updateById\<close> give every
  matching stored document the \<open>_id\<close> of \<open>u\<close> and leave the others as they were. Nothing
  checks uniqueness afterwards: in the collection \<open>two\<close>, whose identifiers are distinct,
  \<open>update\<close> with the empty filter and \<open>{_id: "x"}\<close> succeeds and stores two documents with
  the \<open>_id\<close> \<open>x\<close>; \<open>findMany\<close> then returns both, and \<open>updateById\<close> on \<open>x\<close> changes both.
\<close>

theorem update_replaces_id:
  "(validateAlphabetical c = Inr True \<and> holds w (path_of db c) docs \<and> is_json (JObj u)
    \<and> map_of u ''_id'' = Some v \<longrightarrow>
      fst (updateMany db c (JObj f) (JObj u) w) = Inr ()
      \<and> length (stored (snd (updateMany db c (JObj f) (JObj u) w)) (path_of db c)) = length docs
      \<and> (\<forall>i < length docs.
           (matching (docs ! i) (JObj f) \<longrightarrow>
              id_of (stored (snd (updateMany db c (JObj f) (JObj u) w)) (path_of db c) ! i) = v)
           \<and> (\<not> matching (docs ! i) (JObj f) \<longrightarrow>
              stored (snd (updateMany db c (JObj f) (JObj u) w)) (path_of db c) ! i = docs ! i))
      \<and> fst (updateById db c ident (JObj u) w) = Inr ()
      \<and> (\<forall>i < length docs.
           (matching (docs ! i) (JObj [(''_id'', ident)]) \<longrightarrow>
              id_of (stored (snd (updateById db c ident (JObj u) w)) (path_of db c) ! i) = v)
           \<and> (\<not> matching (docs ! i) (JObj [(''_id'', ident)]) \<longrightarrow>
              stored (snd (updateById db c ident (JObj u) w)) (path_of db c) ! i = docs ! i)))
   \<and> distinct (map id_of (stored world_two ''db/two.json''))
   \<and> fst (updateMany db0 (JStr ''two'') (JObj []) (JObj [(''_id'', JStr ''x'')]) world_two) = Inr ()
   \<and> stored world_two_x ''db/two.json'' =
       [JObj [(''_id'', JStr ''x''), (''n'', JNum (Fin 1))],
        JObj [(''_id'', JStr ''x''), (''n'', JNum (Fin 2))]]
   \<and> fst (findMany db0 (JStr ''two'') (JObj [(''_id'', JStr ''x'')]) world_two_x) =
       Inr [JObj [(''_id'', JStr ''x''), (''n'', JNum (Fin 1))],
            JObj [(''_id'', JStr ''x''), (''n'', JNum (Fin 2))]]
   \<and> stored (snd (updateById db0 (JStr ''two'') (JStr ''x'') (JObj [(''n'', JNum (Fin 0))]) world_two_x))
        ''db/two.json'' =
       [JObj [(''_id'', JStr ''x''), (''n'', JNum (Fin 0))],
        JObj [(''_id'', JStr ''x''), (''n'', JNum (Fin 0))]]"
proof (intro conjI impI)
  assume a: "validateAlphabetical c = Inr True \<and> holds w (path_of db c) docs \<and> is_json (JObj u)
    \<and> map_of u ''_id'' = Some v"
  then have docs: "list_all is_document docs" by (simp add: holds_def)
  have idm: "id_of (merged (docs ! i) u) = v" if "i < length docs" for i
  proof -
    from that docs have "is_document (docs ! i)" by (simp add: list_all_length)
    then show ?thesis using a by (intro merged_id) simp_all
  qed
  have many: "fst (updateMany db c g (JObj u) w) = Inr ()
      \<and> stored (snd (updateMany db c g (JObj u) w)) (path_of db c)
          = map (\<lambda>d. if matching d g then merged d u else d) docs" if "is_reference g" for g
    using a that updateMany_documents [of c w db docs g u] by simp
  show "fst (updateMany db c (JObj f) (JObj u) w) = Inr ()"
    using many [of "JObj f"] by simp
  show "length (stored (snd (updateMany db c (JObj f) (JObj u) w)) (path_of db c)) = length docs"
    using many [of "JObj f"] by simp
  show "\<forall>i < length docs.
           (matching (docs ! i) (JObj f) \<longrightarrow>
              id_of (stored (snd (updateMany db c (JObj f) (JObj u) w)) (path_of db c) ! i) = v)
           \<and> (\<not> matching (docs ! i) (JObj f) \<longrightarrow>
              stored (snd (updateMany db c (JObj f) (JObj u) w)) (path_of db c) ! i = docs ! i)"
    using many [of "JObj f"] idm by simp
  show "fst (updateById db c ident (JObj u) w) = Inr ()"
    using many [of "JObj [(''_id'', ident)]"] by (simp add: updateById_updateMany)
  show "\<forall>i < length docs.
           (matching (docs ! i) (JObj [(''_id'', ident)]) \<longrightarrow>
              id_of (stored (snd (updateById db c ident (JObj u) w)) (path_of db c) ! i) = v)
           \<and> (\<not> matching (docs ! i) (JObj [(''_id'', ident)]) \<longrightarrow>
              stored (snd (updateById db c ident (JObj u) w)) (path_of db c) ! i = docs ! i)"
    using many [of "JObj [(''_id'', ident)]"] idm by (simp add: updateById_updateMany)
next
  show "distinct (map id_of (stored world_two ''db/two.json''))" by code_simp
  show "fst (updateMany db0 (JStr ''two'') (JObj []) (JObj [(''_id'', JStr ''x'')]) world_two) = Inr ()"
    by code_simp
  show "stored world_two_x ''db/two.json'' =
       [JObj [(''_id'', JStr ''x''), (''n'', JNum (Fin 1))],
        JObj [(''_id'', JStr ''x''), (''n'', JNum (Fin 2))]]"
    by code_simp
  show "fst (findMany db0 (JStr ''two'') (JObj [(''_id'', JStr ''x'')]) world_two_x) =
       Inr [JObj [(''_id'', JStr ''x''), (''n'', JNum (Fin 1))],
            JObj [(''_id'', JStr ''x''), (''n'', JNum (Fin 2))]]"
    by code_simp
  show "stored (snd (updateById db0 (JStr ''two'') (JStr ''x'') (JObj [(''n'', JNum (Fin 0))]) world_two_x))
        ''db/two.json'' =
       [JObj [(''_id'', JStr ''x''), (''n'', JNum (Fin 0))],
        JObj [(''_id'', JStr ''x''), (''n'', JNum (Fin 0))]]"
    by code_simp
qed

theorem update_replaces_id_witness:
  "validateAlphabetical (JStr ''two'') = Inr True \<and> holds world_two (path_of db0 (JStr ''two'')) two_docs
   \<and> is_json (JObj [(''_id'', JStr ''x'')])
   \<and> map_of [(''_id'', JStr ''x'')] ''_id'' = Some (JStr ''x'')
   \<and> fst (updateMany db0 (JStr ''two'') (JObj [(''n'', JNum (Fin 2))]) (JObj [(''_id'', JStr ''x'')])
           world_two) = Inr ()
   \<and> length (stored (snd (updateMany db0 (JStr ''two'') (JObj [(''n'', JNum (Fin 2))])
           (JObj [(''_id'', JStr ''x'')]) world_two)) (path_of db0 (JStr ''two''))) = 2"
  using update_replaces_id [THEN conjunct1, of "JStr ''two''" world_two db0 two_docs
      "[(''_id'', JStr ''x'')]" "JStr ''x''" "[(''n'', JNum (Fin 2))]" "JStr ''a''"]
    valid_two holds_two
  by (simp add: two_docs_def)


end
